theory Spec2Isabelle
  imports Main "HOL-Library.Word"
begin

section \<open>Errors and aborts\<close>

text \<open>
  An \<open>os_error\<close> is a Go \<open>error\<close> value returned by the operating system or by
  \<open>CopyFile\<close>. An \<open>abort\<close> ends the whole process: \<open>check\<close> panics with the error it
  is given, and indexing a slice beyond its length panics with the index and the length.
\<close>

datatype os_error =
    ErrNotExist
  | ErrExist
  | ErrPermission
  | ErrIO
  | ErrNonRegularSource
  | ErrNonRegularDest
  | ErrParse

datatype abort =
    Panic os_error
  | IndexOutOfRange nat nat

text \<open>\<open>check(e)\<close>: panic when the error is not nil.\<close>

definition check :: "os_error option \<Rightarrow> abort + unit" where
  "check e = (case e of None \<Rightarrow> Inr () | Some err \<Rightarrow> Inl (Panic err))"

text \<open>\<open>xs[i]\<close> on a Go slice: a run-time panic when \<open>i\<close> is not below the length.\<close>

definition index :: "'a list \<Rightarrow> nat \<Rightarrow> abort + 'a" where
  "index xs i = (if i < length xs then Inr (xs ! i) else Inl (IndexOutOfRange i (length xs)))"

section \<open>Strings\<close>

text \<open>
  Go strings are byte sequences. On a string of ASCII bytes \<open>strings.ToLower\<close> and
  \<open>strings.ToUpper\<close> change the letters byte by byte. \<open>ToUpper\<close> is only applied
  to the group of \<open>finduun\<close>, an \<open>s\<close> and seven digits; \<open>ToLower\<close> is applied
  to a field of the class list and is defined with the library below.
\<close>

definition lower_char :: "char \<Rightarrow> char" where
  "lower_char c = (let n = (of_char c :: nat) in if 65 \<le> n \<and> n \<le> 90 then char_of (n + 32) else c)"

definition upper_char :: "char \<Rightarrow> char" where
  "upper_char c = (let n = (of_char c :: nat) in if 97 \<le> n \<and> n \<le> 122 then char_of (n - 32) else c)"

definition is_ascii :: "char \<Rightarrow> bool" where
  "is_ascii c = ((of_char c :: nat) < 128)"

definition ToUpper :: "string \<Rightarrow> string" where
  "ToUpper s = map upper_char s"

definition HasPrefix :: "string \<Rightarrow> string \<Rightarrow> bool" where
  "HasPrefix s p = (take (length p) s = p)"

fun Contains :: "string \<Rightarrow> string \<Rightarrow> bool" where
  "Contains [] sub = (sub = [])"
| "Contains (c # cs) sub = (HasPrefix (c # cs) sub \<or> Contains cs sub)"

definition is_digit :: "char \<Rightarrow> bool" where
  "is_digit c = (let n = (of_char c :: nat) in 48 \<le> n \<and> n \<le> 57)"

section \<open>The two regular expressions\<close>

text \<open>
  \<open>regexp.MatchString(".txt", name)\<close>: the pattern is not anchored and \<open>.\<close> is any
  character but a newline, so it holds when some character other than a newline is
  followed by \<open>txt\<close> anywhere in the name. The pattern compiles, so the error is nil.
\<close>

fun match_txt :: "string \<Rightarrow> bool" where
  "match_txt [] = False"
| "match_txt (c # cs) = ((c \<noteq> CHR 0x0A \<and> HasPrefix cs ''txt'') \<or> match_txt cs)"

text \<open>
  \<open>finduun = _(s[0-9]{7})_attempt_\<close>. The pattern has a fixed length of 18 bytes, so the
  leftmost match is the first position where it fits. \<open>FindStringSubmatch\<close> returns the
  whole match and the group, or nil (the empty slice) when nothing matches.
\<close>

definition finduun_here :: "string \<Rightarrow> bool" where
  "finduun_here s =
     (18 \<le> length s \<and> take 2 s = ''_s'' \<and> list_all is_digit (take 7 (drop 2 s))
      \<and> take 9 (drop 9 s) = ''_attempt_'')"

fun FindStringSubmatch :: "string \<Rightarrow> string list" where
  "FindStringSubmatch [] = []"
| "FindStringSubmatch (c # cs) =
     (if finduun_here (c # cs) then [take 18 (c # cs), take 8 cs] else FindStringSubmatch cs)"

section \<open>The index of Learn receipts\<close>

text \<open>
  \<open>filepath.Walk\<close> visits the entries below \<open>learnDir\<close> in lexical order and calls the
  closure with each entry's base name and whether it is a directory; the closure always
  returns nil, so every entry is visited unless the closure panics. The run is given the
  visited entries as a list.
\<close>

type_synonym walk_entry = "string \<times> bool"

fun build_index :: "walk_entry list \<Rightarrow> (string \<rightharpoonup> string) \<Rightarrow> abort + (string \<rightharpoonup> string)" where
  "build_index [] learn_files = Inr learn_files"
| "build_index ((name, is_dir) # es) learn_files =
     (if \<not> is_dir \<and> match_txt name then
        (case index (FindStringSubmatch name) 1 of
           Inl a \<Rightarrow> Inl a
         | Inr extracted_uun \<Rightarrow> build_index es (learn_files(ToUpper extracted_uun \<mapsto> name)))
      else build_index es learn_files)"

section \<open>Times and the lateness decision\<close>

text \<open>
  A \<open>time.Time\<close> is an instant, here the number of nanoseconds since the Unix epoch.
  A \<open>time.Duration\<close> is a signed 64-bit count of nanoseconds, and Go's \<open>int\<close> is taken
  as 64 bits wide; \<open>time.Minute * time.Duration(n)\<close> is a 64-bit multiplication
  that wraps. \<open>Time.Add\<close> is exact for the times \<open>time.Parse\<close> produces (years 0 to
  9999) and any duration.
\<close>

type_synonym time = int
type_synonym duration = "64 word"

definition Minute :: duration where
  "Minute = 60000000000"

definition After :: "time \<Rightarrow> time \<Rightarrow> bool" where
  "After t u = (u < t)"

definition Add :: "time \<Rightarrow> duration \<Rightarrow> time" where
  "Add t d = t + sint d"

text \<open>The zero \<open>time.Time\<close>: January 1 of year 1, 00:00:00 UTC.\<close>

definition zero_time :: time where
  "zero_time = - 62135596800 * 1000000000"

text \<open>
  Lines 235 to 245 of the class-list run: whether the submission is marked
  \<open>LATE\<close>.
\<close>

definition late_submission :: "time \<Rightarrow> 64 word \<Rightarrow> time \<Rightarrow> bool" where
  "late_submission deadline_time extratime_int sub_time =
     (if After sub_time deadline_time then
        (if 0 <s extratime_int then
           After sub_time (Add deadline_time (Minute * extratime_int))
         else True)
      else False)"

section \<open>The file system\<close>

text \<open>
  A directory entry names an inode; an inode holds whether the file is regular, its
  modification time and its bytes. Two names of one inode are hard links
  (\<open>os.SameFile\<close>). \<open>next_ino\<close> is the number of the next inode to be created.
\<close>

type_synonym path = string

record inode =
  regular :: bool
  mtime :: time
  content :: string

record filesys =
  names :: "path \<rightharpoonup> nat"
  nodes :: "nat \<Rightarrow> inode"
  next_ino :: nat

text \<open>
  What the operating system does beyond the state of the files: a system call may fail
  for a reason the model does not hold (permissions, another device, a full disk), and
  new data carries the current time. \<open>link_fails\<close> and \<open>remove_fails\<close> say for which
  paths \<open>os.Link\<close> and \<open>os.Remove\<close> fail for such a reason, \<open>copy_fault\<close> says where
  \<open>copyFileContents\<close> fails, if it does.
\<close>

datatype copy_fault = OpenFails | CreateFails | WriteFails nat | SyncFails | CloseFails

record os_env =
  link_fails :: "path \<Rightarrow> path \<Rightarrow> bool"
  copy_fault :: "path \<Rightarrow> path \<Rightarrow> copy_fault option"
  remove_fails :: "path \<Rightarrow> bool"
  now :: time

text \<open>\<open>os.Stat\<close>: the inode number and the inode of a name, or an error.\<close>

definition Stat :: "filesys \<Rightarrow> path \<Rightarrow> os_error + (nat \<times> inode)" where
  "Stat fs p = (case names fs p of None \<Rightarrow> Inl ErrNotExist | Some i \<Rightarrow> Inr (i, nodes fs i))"

definition ModTime :: "nat \<times> inode \<Rightarrow> time" where
  "ModTime fi = mtime (snd fi)"

definition IsRegular :: "nat \<times> inode \<Rightarrow> bool" where
  "IsRegular fi = regular (snd fi)"

definition SameFile :: "nat \<times> inode \<Rightarrow> nat \<times> inode \<Rightarrow> bool" where
  "SameFile a b = (fst a = fst b)"

text \<open>The bytes behind a name, when the name exists.\<close>

definition read_file :: "filesys \<Rightarrow> path \<Rightarrow> string option" where
  "read_file fs p = (case names fs p of None \<Rightarrow> None | Some i \<Rightarrow> Some (content (nodes fs i)))"

definition mod_time :: "filesys \<Rightarrow> path \<Rightarrow> time option" where
  "mod_time fs p = (case names fs p of None \<Rightarrow> None | Some i \<Rightarrow> Some (mtime (nodes fs i)))"

text \<open>
  Whether the file at \<open>path_to\<close> exists and was modified after the one at
  \<open>path_from\<close>, and the other way round.
\<close>

definition target_newer :: "filesys \<Rightarrow> path \<Rightarrow> path \<Rightarrow> bool" where
  "target_newer fs path_from path_to =
     (case (mod_time fs path_to, mod_time fs path_from) of
        (Some time_to, Some time_from) \<Rightarrow> After time_to time_from
      | _ \<Rightarrow> False)"

definition source_newer :: "filesys \<Rightarrow> path \<Rightarrow> path \<Rightarrow> bool" where
  "source_newer fs path_from path_to =
     (case (mod_time fs path_to, mod_time fs path_from) of
        (Some time_to, Some time_from) \<Rightarrow> After time_from time_to
      | _ \<Rightarrow> False)"

text \<open>\<open>os.Remove\<close>: the name goes, or an error and nothing changes.\<close>

definition Remove :: "os_env \<Rightarrow> filesys \<Rightarrow> path \<Rightarrow> os_error option \<times> filesys" where
  "Remove env fs p =
     (if names fs p = None then (Some ErrNotExist, fs)
      else if remove_fails env p then (Some ErrPermission, fs)
      else (None, fs\<lparr>names := (names fs)(p := None)\<rparr>))"

text \<open>\<open>os.Link\<close>: a second name for the inode of \<open>src\<close>; fails when \<open>dst\<close> exists.\<close>

definition Link :: "os_env \<Rightarrow> filesys \<Rightarrow> path \<Rightarrow> path \<Rightarrow> os_error option \<times> filesys" where
  "Link env fs src dst =
     (case names fs src of
        None \<Rightarrow> (Some ErrNotExist, fs)
      | Some i \<Rightarrow>
          if names fs dst \<noteq> None then (Some ErrExist, fs)
          else if link_fails env src dst then (Some ErrPermission, fs)
          else (None, fs\<lparr>names := (names fs)(dst \<mapsto> i)\<rparr>))"

text \<open>
  \<open>os.Create\<close> opens with truncation: an existing file keeps its inode and loses its
  bytes, a missing one gets a new inode. It returns the inode number written to.
\<close>

definition Create :: "os_env \<Rightarrow> filesys \<Rightarrow> path \<Rightarrow> nat \<times> filesys" where
  "Create env fs p =
     (case names fs p of
        Some i \<Rightarrow> (i, fs\<lparr>nodes := (nodes fs)(i := (nodes fs i)\<lparr>mtime := now env, content := []\<rparr>)\<rparr>)
      | None \<Rightarrow>
          (next_ino fs,
           fs\<lparr>names := (names fs)(p \<mapsto> next_ino fs),
              nodes := (nodes fs)(next_ino fs := \<lparr>regular = True, mtime = now env, content = []\<rparr>),
              next_ino := Suc (next_ino fs)\<rparr>))"

definition write_bytes :: "os_env \<Rightarrow> filesys \<Rightarrow> nat \<Rightarrow> string \<Rightarrow> filesys" where
  "write_bytes env fs i bytes =
     fs\<lparr>nodes := (nodes fs)(i := (nodes fs i)\<lparr>mtime := now env, content := bytes\<rparr>)\<rparr>"

text \<open>
  \<open>copyFileContents\<close>: open the source, create the destination, copy, sync, close.
  A failure of the copy leaves the bytes written so far in the destination.
\<close>

definition copyFileContents :: "os_env \<Rightarrow> filesys \<Rightarrow> path \<Rightarrow> path \<Rightarrow> os_error option \<times> filesys" where
  "copyFileContents env fs src dst =
     (case names fs src of
        None \<Rightarrow> (Some ErrNotExist, fs)
      | Some si \<Rightarrow>
          if copy_fault env src dst = Some OpenFails then (Some ErrPermission, fs)
          else if copy_fault env src dst = Some CreateFails then (Some ErrPermission, fs)
          else
            (let bytes = content (nodes fs si);
                 (di, fs1) = Create env fs dst
             in case copy_fault env src dst of
                  Some (WriteFails n) \<Rightarrow> (Some ErrIO, write_bytes env fs1 di (take n bytes))
                | Some SyncFails \<Rightarrow> (Some ErrIO, write_bytes env fs1 di bytes)
                | Some CloseFails \<Rightarrow> (Some ErrIO, write_bytes env fs1 di bytes)
                | _ \<Rightarrow> (None, write_bytes env fs1 di bytes)))"

text \<open>\<open>CopyFile\<close>, from the source line by line.\<close>

definition CopyFile :: "os_env \<Rightarrow> filesys \<Rightarrow> path \<Rightarrow> path \<Rightarrow> os_error option \<times> filesys" where
  "CopyFile env fs src dst =
     (case Stat fs src of
        Inl err \<Rightarrow> (Some err, fs)
      | Inr sfi \<Rightarrow>
          if \<not> IsRegular sfi then (Some ErrNonRegularSource, fs)
          else
            (case Stat fs dst of
               Inr dfi \<Rightarrow>
                 if \<not> IsRegular dfi then (Some ErrNonRegularDest, fs)
                 else if SameFile sfi dfi then (None, fs)
                 else
                   (case Link env fs src dst of
                      (None, fs') \<Rightarrow> (None, fs')
                    | (Some _, _) \<Rightarrow> copyFileContents env fs src dst)
             | Inl err \<Rightarrow>
                 if err \<noteq> ErrNotExist then (Some err, fs)
                 else
                   (case Link env fs src dst of
                      (None, fs') \<Rightarrow> (None, fs')
                    | (Some _, _) \<Rightarrow> copyFileContents env fs src dst)))"

text \<open>\<open>removeFile\<close>: \<open>os.Remove\<close>, then \<open>check\<close>.\<close>

definition removeFile :: "os_env \<Rightarrow> filesys \<Rightarrow> path \<Rightarrow> abort + filesys" where
  "removeFile env fs p =
     (case Remove env fs p of (err, fs') \<Rightarrow>
        (case check err of Inl a \<Rightarrow> Inl a | Inr _ \<Rightarrow> Inr fs'))"

text \<open>
  \<open>moveFile\<close>: the status string and the file system afterwards, or the panic of a
  \<open>check\<close>.
\<close>

definition moveFile :: "os_env \<Rightarrow> filesys \<Rightarrow> path \<Rightarrow> path \<Rightarrow> abort + (string \<times> filesys)" where
  "moveFile env fs path_from path_to =
     (case Stat fs path_from of
        Inl err \<Rightarrow> Inl (Panic err)
      | Inr file_from \<Rightarrow>
          (let time_from = ModTime file_from;
               file_to_exists = (case Stat fs path_to of Inr _ \<Rightarrow> True | Inl _ \<Rightarrow> False);
               to_is_newer = (case Stat fs path_to of
                                Inr file_to \<Rightarrow> After (ModTime file_to) time_from
                              | Inl _ \<Rightarrow> False)
           in if to_is_newer then
                (case removeFile env fs path_from of
                   Inl a \<Rightarrow> Inl a
                 | Inr fs' \<Rightarrow> Inr (''File already exists'', fs'))
              else
                (case CopyFile env fs path_from path_to of
                   (Some _, fs') \<Rightarrow> Inr (''Done Nothing'', fs')
                 | (None, fs') \<Rightarrow>
                     (case removeFile env fs' path_from of
                        Inl a \<Rightarrow> Inl a
                      | Inr fs'' \<Rightarrow>
                          Inr (if file_to_exists then ''File replaced'' else ''File created'',
                               fs'')))))"

text \<open>What a caller sees of \<open>moveFile\<close>: the status, or the panic.\<close>

definition move_outcome :: "os_env \<Rightarrow> filesys \<Rightarrow> path \<Rightarrow> path \<Rightarrow> abort + string" where
  "move_outcome env fs path_from path_to = map_sum id fst (moveFile env fs path_from path_to)"

text \<open>The file system a caller finds after \<open>moveFile\<close> has returned.\<close>

definition disk_after_move :: "os_env \<Rightarrow> filesys \<Rightarrow> path \<Rightarrow> path \<Rightarrow> filesys" where
  "disk_after_move env fs path_from path_to =
     (case moveFile env fs path_from path_to of Inl _ \<Rightarrow> fs | Inr (_, fs1) \<Rightarrow> fs1)"

section \<open>Submissions and the class-list run\<close>

text \<open>
  The fields of \<open>parselearn.Submission\<close> that the run reads or writes. The zero value
  has empty strings and zeros.
\<close>

record submission =
  UUN :: string
  ExamNumber :: string
  ExtraTime :: "64 word"
  DateSubmitted :: string
  LateSubmission :: string
  NumberOfFiles :: int
  FiletypeError :: string
  Filename :: string
  OriginalFilename :: string
  OutputFile :: string

definition zero_submission :: submission where
  "zero_submission =
     \<lparr>UUN = [], ExamNumber = [], ExtraTime = 0, DateSubmitted = [], LateSubmission = [],
      NumberOfFiles = 0, FiletypeError = [], Filename = [], OriginalFilename = [],
      OutputFile = []\<rparr>"

text \<open>
  The library functions the run calls: \<open>parse_receipt\<close> is what
  \<open>parselearn.ParseLearnReceipt\<close> makes of the bytes of a receipt (a submission and
  an error or nil), \<open>parse_date\<close> is \<open>time.Parse\<close> with the layout
  \<open>2006-01-02-15-04-05\<close> (\<open>None\<close> for an error, where Go returns the zero time),
  \<open>unicode_lower\<close> is \<open>strings.Map(unicode.ToLower, s)\<close>, the lower case of a
  string that is not all ASCII.
\<close>

record library =
  parse_receipt :: "string \<Rightarrow> submission \<times> os_error option"
  parse_date :: "string \<Rightarrow> time option"
  unicode_lower :: "string \<Rightarrow> string"

text \<open>
  \<open>strings.ToLower\<close>: a string of ASCII bytes has its capitals lowered byte by byte;
  any other string goes through the Unicode mapping.
\<close>

definition ToLower :: "library \<Rightarrow> string \<Rightarrow> string" where
  "ToLower lib s = (if list_all is_ascii s then map lower_char s else unicode_lower lib s)"

definition ParseLearnReceipt :: "library \<Rightarrow> filesys \<Rightarrow> path \<Rightarrow> submission \<times> os_error option" where
  "ParseLearnReceipt lib fs p =
     (case Stat fs p of
        Inl err \<Rightarrow> (zero_submission, Some err)
      | Inr fi \<Rightarrow> if IsRegular fi then parse_receipt lib (content (snd fi))
                  else (zero_submission, Some ErrIO))"

text \<open>
  \<open>strconv.Atoi\<close> with its error dropped: 0 on a syntax error, the nearest 64-bit value
  on a range error.
\<close>

definition digits_value :: "string \<Rightarrow> int" where
  "digits_value ds = foldl (\<lambda>n c. 10 * n + (of_char c - 48)) 0 ds"

definition Atoi :: "string \<Rightarrow> 64 word" where
  "Atoi s =
     (let neg = (s \<noteq> [] \<and> hd s = CHR ''-'');
          ds = (if s \<noteq> [] \<and> (hd s = CHR ''-'' \<or> hd s = CHR ''+'') then tl s else s)
      in if ds = [] \<or> \<not> list_all is_digit ds then 0
         else (let n = digits_value ds
               in if neg then (if 2 ^ 63 < n then word_of_int (- (2 ^ 63)) else word_of_int (- n))
                  else (if 2 ^ 63 \<le> n then word_of_int (2 ^ 63 - 1) else word_of_int n)))"

text \<open>The flags of the run that the loop reads.\<close>

record config =
  learnDir :: string
  outputDir :: string
  deadline_time :: time

text \<open>The variables of \<open>main\<close> that change while the class list is read.\<close>

record state =
  disk :: filesys
  examno :: "string \<rightharpoonup> string"
  submissions :: "submission list"
  bad_submissions :: "submission list"

text \<open>A path in the Learn folder: \<open>learnDir+"/"+name\<close>.\<close>

definition learn_path :: "config \<Rightarrow> string \<Rightarrow> path" where
  "learn_path cfg name = learnDir cfg @ ''/'' @ name"

text \<open>The path of an on-time script: \<open>outputDir+"/"+student_examno+".pdf"\<close>.\<close>

definition plain_path :: "config \<Rightarrow> string \<Rightarrow> path" where
  "plain_path cfg student_examno = outputDir cfg @ ''/'' @ student_examno @ ''.pdf''"

definition late_path :: "config \<Rightarrow> string \<Rightarrow> path" where
  "late_path cfg student_examno = outputDir cfg @ ''/LATE-'' @ student_examno @ ''.pdf''"

text \<open>The target path of a submission, lines 253 to 256.\<close>

definition new_path :: "config \<Rightarrow> string \<Rightarrow> submission \<Rightarrow> path" where
  "new_path cfg student_examno sub =
     (if LateSubmission sub = ''LATE'' then late_path cfg student_examno
      else plain_path cfg student_examno)"

text \<open>Lines 230 to 245: the exam number, the extra time and the late mark.\<close>

definition mark_submission :: "library \<Rightarrow> config \<Rightarrow> string \<Rightarrow> 64 word \<Rightarrow> submission \<Rightarrow> submission" where
  "mark_submission lib cfg student_examno extratime_int sub0 =
     (let sub = sub0\<lparr>ExamNumber := student_examno, ExtraTime := extratime_int\<rparr>;
          sub_time = (case parse_date lib (DateSubmitted sub) of Some t \<Rightarrow> t | None \<Rightarrow> zero_time)
      in if late_submission (deadline_time cfg) extratime_int sub_time
         then sub\<lparr>LateSubmission := ''LATE''\<rparr> else sub)"

text \<open>Lines 225 to 278: a student whose UUN is in the index of receipts.\<close>

definition learn_branch ::
  "os_env \<Rightarrow> library \<Rightarrow> config \<Rightarrow> state \<Rightarrow> string \<Rightarrow> string \<Rightarrow> 64 word \<Rightarrow> abort + state" where
  "learn_branch env lib cfg st learn_file student_examno extratime_int =
     (case ParseLearnReceipt lib (disk st) (learn_path cfg learn_file) of (sub0, err) \<Rightarrow>
        (let sub = mark_submission lib cfg student_examno extratime_int sub0
         in if err = None then
              (if NumberOfFiles sub = 1 \<and> FiletypeError sub = [] then
                 (case moveFile env (disk st) (learn_path cfg (Filename sub))
                         (new_path cfg student_examno sub) of
                    Inl a \<Rightarrow> Inl a
                  | Inr (filemovestatus, fs1) \<Rightarrow>
                      (case (if Contains filemovestatus ''File''
                             then removeFile env fs1 (learn_path cfg learn_file)
                             else Inr fs1) of
                         Inl a \<Rightarrow> Inl a
                       | Inr fs2 \<Rightarrow>
                           Inr (st\<lparr>disk := fs2,
                                   submissions :=
                                     submissions st @ [sub\<lparr>OutputFile := filemovestatus\<rparr>]\<rparr>)))
               else Inr (st\<lparr>bad_submissions := bad_submissions st @ [sub]\<rparr>))
            else Inr st))"

text \<open>Lines 285 to 296: the last resort, a file named after the UUN in lower case.\<close>

definition manual_branch ::
  "os_env \<Rightarrow> library \<Rightarrow> config \<Rightarrow> state \<Rightarrow> string \<Rightarrow> string \<Rightarrow> abort + state" where
  "manual_branch env lib cfg st student_uun student_examno =
     (let raw_uun_path = learn_path cfg (ToLower lib student_uun @ ''.pdf'')
      in case Stat (disk st) raw_uun_path of
           Inl _ \<Rightarrow> Inr st
         | Inr _ \<Rightarrow>
             (case moveFile env (disk st) raw_uun_path (plain_path cfg student_examno) of
                Inl a \<Rightarrow> Inl a
              | Inr (filemovestatus, fs1) \<Rightarrow>
                  Inr (st\<lparr>disk := fs1,
                          submissions :=
                            submissions st @
                              [zero_submission\<lparr>UUN := student_uun, ExamNumber := student_examno,
                                               OutputFile := filemovestatus\<rparr>]\<rparr>)))"

text \<open>One pass of the loop over the class list, lines 217 to 297, for one csv record.\<close>

definition process_row ::
  "os_env \<Rightarrow> library \<Rightarrow> config \<Rightarrow> (string \<rightharpoonup> string) \<Rightarrow> state \<Rightarrow> string list \<Rightarrow> abort + state" where
  "process_row env lib cfg learn_files st record =
     (case index record 0 of Inl a \<Rightarrow> Inl a | Inr student_uun \<Rightarrow>
      case index record 1 of Inl a \<Rightarrow> Inl a | Inr student_examno \<Rightarrow>
      case index record 4 of Inl a \<Rightarrow> Inl a | Inr extratime \<Rightarrow>
        (let extratime_int = Atoi extratime;
             st1 = st\<lparr>examno := (examno st)(student_uun \<mapsto> student_examno)\<rparr>
         in case learn_files student_uun of
              Some learn_file \<Rightarrow> learn_branch env lib cfg st1 learn_file student_examno extratime_int
            | None \<Rightarrow> manual_branch env lib cfg st1 student_uun student_examno))"

text \<open>The loop: the records of the class list in order; a panic ends the process.\<close>

fun process_rows ::
  "os_env \<Rightarrow> library \<Rightarrow> config \<Rightarrow> (string \<rightharpoonup> string) \<Rightarrow> state \<Rightarrow> string list list \<Rightarrow> abort + state" where
  "process_rows env lib cfg learn_files st [] = Inr st"
| "process_rows env lib cfg learn_files st (record # records) =
     (case process_row env lib cfg learn_files st record of
        Inl a \<Rightarrow> Inl a
      | Inr st' \<Rightarrow> process_rows env lib cfg learn_files st' records)"

definition initial_state :: "filesys \<Rightarrow> state" where
  "initial_state f = \<lparr>disk = f, examno = Map.empty, submissions = [], bad_submissions = []\<rparr>"

text \<open>
  The run from the walk of \<open>learnDir\<close> to the end of the class list; the two lists are
  then written as the two reports.
\<close>

definition ingest ::
  "os_env \<Rightarrow> library \<Rightarrow> config \<Rightarrow> walk_entry list \<Rightarrow> string list list \<Rightarrow> filesys \<Rightarrow> abort + state" where
  "ingest env lib cfg walk records f =
     (case build_index walk Map.empty of
        Inl a \<Rightarrow> Inl a
      | Inr learn_files \<Rightarrow> process_rows env lib cfg learn_files (initial_state f) records)"

text \<open>The rows of the two reports: the successes and the bad submissions.\<close>

definition reports :: "abort + state \<Rightarrow> abort + (submission list \<times> submission list)" where
  "reports r = (case r of Inl a \<Rightarrow> Inl a | Inr st \<Rightarrow> Inr (submissions st, bad_submissions st))"


section \<open>The receipt-renaming tool\<close>

text \<open>
  The loop of \<open>gradex-ingest.go\<close> that gives every parsed receipt a destination in
  the output directory: the original file name, then the Learn file name, and a message
  when both are taken. The file is copied to the destination in every case.
\<close>

text \<open>\<open>filepath.Ext\<close>: from the last dot of the last element of the path.\<close>

definition Ext :: "string \<Rightarrow> string" where
  "Ext p =
     (let last_elem = takeWhile (\<lambda>c. c \<noteq> CHR ''/'') (rev p)
      in if CHR ''.'' \<in> set last_elem
         then CHR ''.'' # rev (takeWhile (\<lambda>c. c \<noteq> CHR ''.'') last_elem)
         else [])"

definition TrimSuffix :: "string \<Rightarrow> string \<Rightarrow> string" where
  "TrimSuffix s suffix =
     (if length suffix \<le> length s \<and> drop (length s - length suffix) s = suffix
      then take (length s - length suffix) s else s)"

definition pretend_pdf :: "submission \<Rightarrow> submission" where
  "pretend_pdf sub =
     (if Ext (Filename sub) \<noteq> ''.pdf''
      then sub\<lparr>Filename := TrimSuffix (Filename sub) (Ext (Filename sub)) @ ''.pdf''\<rparr>
      else sub)"

text \<open>
  One pass of the loop: the destination, whether the collision message is printed, and
  the map of destinations afterwards.
\<close>

definition assign_destination ::
  "string \<Rightarrow> (string \<rightharpoonup> bool) \<Rightarrow> submission \<Rightarrow> (string \<times> bool) \<times> (string \<rightharpoonup> bool)" where
  "assign_destination out destinations sub0 =
     (let sub = pretend_pdf sub0;
          destination = out @ ''/'' @ OriginalFilename sub
      in if destinations destination = None
         then ((destination, False), destinations(destination \<mapsto> True))
         else
           (let destination = out @ ''/'' @ Filename sub
            in if destinations destination = None
               then ((destination, False), destinations(destination \<mapsto> True))
               else ((destination, True), destinations)))"

fun assign_destinations ::
  "string \<Rightarrow> (string \<rightharpoonup> bool) \<Rightarrow> submission list \<Rightarrow> (string \<times> bool) list" where
  "assign_destinations out destinations [] = []"
| "assign_destinations out destinations (sub # subs) =
     (case assign_destination out destinations sub of
        (d, destinations') \<Rightarrow> d # assign_destinations out destinations' subs)"

section \<open>A small course\<close>

text \<open>
  Two students, their Learn receipts and scripts in the folder \<open>L\<close>, the output folder
  \<open>O\<close>, and the deadline of 22 April 2020 at 16:00 UTC.
\<close>

definition course_cfg :: config where
  "course_cfg = \<lparr>learnDir = ''L'', outputDir = ''O'', deadline_time = 1587571200000000000\<rparr>"

definition receipt_of :: "string \<Rightarrow> string \<Rightarrow> submission" where
  "receipt_of uun date =
     zero_submission\<lparr>UUN := uun, DateSubmitted := date, NumberOfFiles := 1,
                     Filename := ''x_'' @ uun @ ''_attempt_1_a.pdf'', OriginalFilename := ''a.pdf''\<rparr>"

text \<open>
  The receipts of the course by their bytes. Every UUN of the course is ASCII, so
  \<open>unicode_lower\<close> is never reached.
\<close>

definition course_lib :: library where
  "course_lib =
     \<lparr>parse_receipt = (\<lambda>bytes.
        if bytes = ''R1'' then (receipt_of ''s1111111'' ''2020-04-22-15-59-00'', None)
        else if bytes = ''R2'' then (receipt_of ''s2222222'' ''2020-04-22-16-05-00'', None)
        else if bytes = ''R3''
          then ((receipt_of ''s3333333'' ''2020-04-22-15-00-00'')\<lparr>NumberOfFiles := 2\<rparr>, None)
        else (zero_submission, Some ErrParse)),
      parse_date = (\<lambda>d.
        if d = ''2020-04-22-15-59-00'' then Some 1587571140000000000
        else if d = ''2020-04-22-16-05-00'' then Some 1587571500000000000
        else if d = ''2020-04-22-15-00-00'' then Some 1587567600000000000
        else None),
      unicode_lower = (\<lambda>s. s)\<rparr>"

definition course_nodes :: "nat \<Rightarrow> inode" where
  "course_nodes i =
     (if i = 1 then \<lparr>regular = True, mtime = 100, content = ''R1''\<rparr>
      else if i = 2 then \<lparr>regular = True, mtime = 101, content = ''P1''\<rparr>
      else if i = 3 then \<lparr>regular = True, mtime = 102, content = ''R2''\<rparr>
      else if i = 4 then \<lparr>regular = True, mtime = 103, content = ''P2''\<rparr>
      else if i = 5 then \<lparr>regular = True, mtime = 104, content = ''R3''\<rparr>
      else if i = 6 then \<lparr>regular = True, mtime = 105, content = ''M4''\<rparr>
      else if i = 7 then \<lparr>regular = True, mtime = 200, content = ''Q1''\<rparr>
      else if i = 8 then \<lparr>regular = True, mtime = 106, content = ''M2''\<rparr>
      else if i = 9 then \<lparr>regular = True, mtime = 50, content = ''Q0''\<rparr>
      else \<lparr>regular = True, mtime = 0, content = []\<rparr>)"

definition course_disk :: filesys where
  "course_disk =
     \<lparr>names = map_of
        [(''L/x_s1111111_attempt_1.txt'', 1), (''L/x_s1111111_attempt_1_a.pdf'', 2),
         (''L/x_s2222222_attempt_1.txt'', 3), (''L/x_s2222222_attempt_1_a.pdf'', 4),
         (''L/x_s3333333_attempt_1.txt'', 5), (''L/s4444444.pdf'', 6),
         (''O/B009.pdf'', 7), (''L/s2222222.pdf'', 8), (''O/B000.pdf'', 9)],
      nodes = course_nodes, next_ino = 10\<rparr>"

definition course_walk :: "walk_entry list" where
  "course_walk =
     [(''s4444444.pdf'', False),
      (''x_s1111111_attempt_1.txt'', False), (''x_s1111111_attempt_1_a.pdf'', False),
      (''x_s2222222_attempt_1.txt'', False), (''x_s2222222_attempt_1_a.pdf'', False),
      (''x_s3333333_attempt_1.txt'', False)]"

definition course_index :: "string \<rightharpoonup> string" where
  "course_index =
     map_of [(''S1111111'', ''x_s1111111_attempt_1.txt''), (''S2222222'', ''x_s2222222_attempt_1.txt''),
             (''S3333333'', ''x_s3333333_attempt_1.txt'')]"

text \<open>The same folder after the script of the first student was lost.\<close>

definition course_disk_lost :: filesys where
  "course_disk_lost =
     course_disk\<lparr>names := (names course_disk)(''L/x_s1111111_attempt_1_a.pdf'' := None)\<rparr>"


definition pair :: "string list list" where
  "pair = [[''S1111111'', ''B001'', ''Ann'', ''Lee'', ''0''],
           [''S2222222'', ''B002'', ''Bob'', ''Ray'', ''10'']]"

text \<open>A submission as the run records it.\<close>

definition recorded :: "submission \<Rightarrow> string \<Rightarrow> 64 word \<Rightarrow> string \<Rightarrow> string \<Rightarrow> submission" where
  "recorded sub en x late status =
     sub\<lparr>ExamNumber := en, ExtraTime := x, LateSubmission := late, OutputFile := status\<rparr>"

text \<open>An operating system where nothing fails, at a time after the deadline.\<close>

definition calm :: os_env where
  "calm = \<lparr>link_fails = (\<lambda>_ _. False), copy_fault = (\<lambda>_ _. None),
           remove_fails = (\<lambda>_. False), now = 1587600000000000000\<rparr>"

text \<open>The output folder is on another device and cannot be written to.\<close>

definition no_write :: os_env where
  "no_write = calm\<lparr>link_fails := (\<lambda>_ _. True), copy_fault := (\<lambda>_ _. Some CreateFails)\<rparr>"

text \<open>The Learn folder is read-only: nothing can be removed from it.\<close>

definition read_only :: os_env where
  "read_only = calm\<lparr>remove_fails := (\<lambda>p. HasPrefix p ''L/'')\<rparr>"

text \<open>Only the receipts cannot be removed.\<close>

definition receipts_locked :: os_env where
  "receipts_locked = calm\<lparr>remove_fails := match_txt\<rparr>"

section \<open>Facts about the file operations\<close>

lemma Remove_ok:
  "names fs p = Some i \<Longrightarrow> \<not> remove_fails env p \<Longrightarrow>
   removeFile env fs p = Inr (fs\<lparr>names := (names fs)(p := None)\<rparr>)"
  by (simp add: removeFile_def Remove_def check_def)

lemma Remove_refused:
  "remove_fails env p \<Longrightarrow> names fs p \<noteq> None \<Longrightarrow> Remove env fs p = (Some ErrPermission, fs)"
  by (simp add: Remove_def)

lemma removeFile_Inr:
  "removeFile env fs p = Inr fs' \<Longrightarrow> fs' = fs\<lparr>names := (names fs)(p := None)\<rparr>"
  by (auto simp: removeFile_def Remove_def check_def split: if_splits)

lemma removeFile_fails:
  "remove_fails env p \<Longrightarrow> names fs p = Some i \<Longrightarrow> removeFile env fs p = Inl (Panic ErrPermission)"
  by (simp add: removeFile_def Remove_def check_def)

lemma removeFile_missing:
  "names fs p = None \<Longrightarrow> removeFile env fs p = Inl (Panic ErrNotExist)"
  by (simp add: removeFile_def Remove_def check_def)

lemma Link_names:
  "Link env fs src dst = (e, fs') \<Longrightarrow> names fs p = Some i \<Longrightarrow> names fs' p = Some i"
  by (auto simp: Link_def split: option.splits if_splits)

lemma Link_ok:
  "Link env fs src dst = (None, fs') \<Longrightarrow>
   names fs dst = None \<and> fs' = fs\<lparr>names := (names fs)(dst := names fs src)\<rparr> \<and> names fs src \<noteq> None"
  by (auto simp: Link_def split: option.splits if_splits)

lemma copyFileContents_names:
  "copyFileContents env fs src dst = (e, fs') \<Longrightarrow> names fs p = Some i \<Longrightarrow> names fs' p = Some i"
  by (auto simp: copyFileContents_def Create_def write_bytes_def Let_def
      split: option.splits if_splits copy_fault.splits prod.splits)

lemma copyFileContents_ok:
  assumes "copyFileContents env fs src dst = (None, fs')" "names fs src = Some si"
  shows "\<exists>di. names fs' dst = Some di \<and> content (nodes fs' di) = content (nodes fs si)
          \<and> (\<forall>p. p \<noteq> dst \<longrightarrow> names fs' p = names fs p)"
  using assms
  by (auto simp: copyFileContents_def Create_def write_bytes_def Let_def
      split: option.splits if_splits copy_fault.splits prod.splits)

lemma CopyFile_names:
  "CopyFile env fs src dst = (e, fs') \<Longrightarrow> names fs p = Some i \<Longrightarrow> names fs' p = Some i"
  by (auto simp: CopyFile_def Stat_def split: option.splits if_splits sum.splits prod.splits
      dest: Link_names copyFileContents_names)

lemma read_file_removed:
  "q \<noteq> p \<Longrightarrow> read_file (fs\<lparr>names := (names fs)(p := None)\<rparr>) q = read_file fs q"
  by (simp add: read_file_def split: option.splits)

lemma CopyFile_created:
  assumes "CopyFile env fs src dst = (None, fs1)" "names fs dst = None" "names fs src = Some si"
  shows "read_file fs1 dst = read_file fs src \<and> names fs1 src = Some si"
proof -
  from assms have ne: "src \<noteq> dst" by auto
  from assms consider
      (link) "Link env fs src dst = (None, fs1)"
    | (copy) "copyFileContents env fs src dst = (None, fs1)"
    by (auto simp: CopyFile_def Stat_def split: if_splits prod.splits option.splits)
  then show ?thesis
  proof cases
    case link
    from Link_ok [OF link] assms ne show ?thesis
      by (auto simp: read_file_def)
  next
    case copy
    from copyFileContents_ok [OF copy assms(3)] assms ne show ?thesis
      by (auto simp: read_file_def)
  qed
qed

lemma CopyFile_replaced:
  assumes "CopyFile env fs src dst = (None, fs1)" "names fs dst = Some di" "names fs src = Some si"
    "si \<noteq> di"
  shows "read_file fs1 dst = read_file fs src \<and> names fs1 src = Some si"
proof -
  from assms have ne: "src \<noteq> dst" by auto
  have "Link env fs src dst = (Some ErrExist, fs)"
    using assms by (simp add: Link_def)
  with assms have copy: "copyFileContents env fs src dst = (None, fs1)"
    by (auto simp: CopyFile_def Stat_def SameFile_def split: if_splits)
  from copyFileContents_ok [OF copy assms(3)] assms ne show ?thesis
    by (auto simp: read_file_def)
qed

lemma target_newer_iff:
  "names fs src = Some si \<Longrightarrow>
   target_newer fs src dst = (\<exists>t. mod_time fs dst = Some t \<and> After t (mtime (nodes fs si)))"
  by (auto simp: target_newer_def mod_time_def split: option.splits)

lemma source_newer_iff:
  "names fs src = Some si \<Longrightarrow>
   source_newer fs src dst = (\<exists>t. mod_time fs dst = Some t \<and> After (mtime (nodes fs si)) t)"
  by (auto simp: source_newer_def mod_time_def split: option.splits)

lemma moveFile_missing_source:
  "names fs src = None \<Longrightarrow> moveFile env fs src dst = Inl (Panic ErrNotExist)"
  by (simp add: moveFile_def Stat_def)

lemma moveFile_status:
  "moveFile env fs src dst = Inr (status, fs1) \<Longrightarrow>
   status \<in> {''File already exists'', ''Done Nothing'', ''File replaced'', ''File created''}"
  by (auto simp: moveFile_def Let_def split: sum.splits if_splits prod.splits option.splits)

lemma moveFile_source_gone:
  "moveFile env fs src dst = Inr (status, fs1) \<Longrightarrow> status \<noteq> ''Done Nothing'' \<Longrightarrow>
   names fs1 src = None"
  by (auto simp: moveFile_def Let_def split: sum.splits if_splits prod.splits option.splits
      dest!: removeFile_Inr)

lemma moveFile_keeps_names:
  "moveFile env fs src dst = Inr (status, fs1) \<Longrightarrow> names fs p = Some i \<Longrightarrow> p \<noteq> src \<Longrightarrow>
   names fs1 p = Some i"
  by (auto simp: moveFile_def Let_def split: sum.splits if_splits prod.splits option.splits
      dest!: removeFile_Inr dest: CopyFile_names)

lemma moveFile_copy_fails:
  assumes "names fs src = Some si" "CopyFile env fs src dst = (Some e, fs1)"
    "\<not> (\<exists>t. mod_time fs dst = Some t \<and> After t (mtime (nodes fs si)))"
  shows "moveFile env fs src dst = Inr (''Done Nothing'', fs1)"
  using assms
  by (auto simp: moveFile_def Stat_def ModTime_def mod_time_def Let_def split: option.splits)

lemma moveFile_remove_fails:
  assumes "names fs src = Some si" "remove_fails env src"
    "(\<exists>t. mod_time fs dst = Some t \<and> After t (mtime (nodes fs si))) \<or> fst (CopyFile env fs src dst) = None"
  shows "moveFile env fs src dst = Inl (Panic ErrPermission)"
proof (cases "\<exists>t. mod_time fs dst = Some t \<and> After t (mtime (nodes fs si))")
  case True
  then show ?thesis
    using assms(1,2) removeFile_fails [OF assms(2,1)]
    by (auto simp: moveFile_def Stat_def ModTime_def mod_time_def Let_def split: option.splits)
next
  case False
  with assms(3) obtain fs1 where c: "CopyFile env fs src dst = (None, fs1)"
    by (cases "CopyFile env fs src dst") auto
  from CopyFile_names [OF c assms(1)] have "names fs1 src = Some si" .
  from removeFile_fails [OF assms(2) this] False assms(1) c show ?thesis
    by (auto simp: moveFile_def Stat_def ModTime_def mod_time_def Let_def split: option.splits)
qed

lemma move_outcome_Inr:
  "move_outcome env fs src dst = Inr status \<Longrightarrow>
   \<exists>fs1. moveFile env fs src dst = Inr (status, fs1)"
  by (cases "moveFile env fs src dst") (auto simp: move_outcome_def)

lemma disk_after_move_Inr:
  "moveFile env fs src dst = Inr (status, fs1) \<Longrightarrow> disk_after_move env fs src dst = fs1"
  by (simp add: disk_after_move_def)

lemma removeFile_Remove:
  "removeFile env fs p = (case fst (Remove env fs p) of
                            None \<Rightarrow> Inr (fs\<lparr>names := (names fs)(p := None)\<rparr>)
                          | Some e \<Rightarrow> Inl (Panic e))"
  by (simp add: removeFile_def Remove_def check_def)

lemma Contains_File:
  "status \<in> {''File already exists'', ''File replaced'', ''File created''} \<Longrightarrow> Contains status ''File''"
  by (auto simp: HasPrefix_def)

lemma Link_frame:
  "Link env fs src dst = (e, fs') \<Longrightarrow> p \<noteq> dst \<Longrightarrow> names fs' p = names fs p"
  by (auto simp: Link_def split: option.splits if_splits)

lemma copyFileContents_frame:
  "copyFileContents env fs src dst = (e, fs') \<Longrightarrow> p \<noteq> dst \<Longrightarrow> names fs' p = names fs p"
  by (auto simp: copyFileContents_def Create_def write_bytes_def Let_def
      split: option.splits if_splits copy_fault.splits prod.splits)

lemma CopyFile_frame:
  "CopyFile env fs src dst = (e, fs') \<Longrightarrow> p \<noteq> dst \<Longrightarrow> names fs' p = names fs p"
  by (auto simp: CopyFile_def Stat_def split: option.splits if_splits sum.splits prod.splits
      dest: Link_frame copyFileContents_frame)

lemma CopyFile_bytes:
  assumes "CopyFile env fs src dst = (None, fs1)" and "names fs src = Some si" and "src \<noteq> dst"
  shows "read_file fs1 dst = read_file fs src"
proof (cases "names fs dst")
  case None
  from CopyFile_created [OF assms(1) None assms(2)] show ?thesis by simp
next
  case (Some di)
  show ?thesis
  proof (cases "si = di")
    case True
    with assms Some have "fs1 = fs"
      by (auto simp: CopyFile_def Stat_def SameFile_def split: if_splits)
    with True Some assms(2) show ?thesis by (simp add: read_file_def)
  next
    case False
    from CopyFile_replaced [OF assms(1) Some assms(2) False] show ?thesis by simp
  qed
qed

lemma moveFile_returns:
  assumes "names fs src = Some si" and "\<not> remove_fails env src"
    and "target_newer fs src dst \<or> fst (CopyFile env fs src dst) = None"
  shows "moveFile env fs src dst =
     Inr (if target_newer fs src dst then ''File already exists''
          else if names fs dst = None then ''File created'' else ''File replaced'',
          (if target_newer fs src dst then fs else snd (CopyFile env fs src dst))
            \<lparr>names := (names (if target_newer fs src dst then fs else snd (CopyFile env fs src dst)))
                        (src := None)\<rparr>)"
proof (cases "target_newer fs src dst")
  case True
  then have "\<exists>t. mod_time fs dst = Some t \<and> After t (mtime (nodes fs si))"
    by (simp add: target_newer_iff [OF assms(1)])
  with True assms(1) Remove_ok [OF assms(1,2)] show ?thesis
    by (auto simp: moveFile_def Stat_def ModTime_def mod_time_def Let_def split: option.splits)
next
  case False
  with assms(3) obtain fs1 where c: "CopyFile env fs src dst = (None, fs1)"
    by (cases "CopyFile env fs src dst") auto
  from False have n: "\<not> (\<exists>t. mod_time fs dst = Some t \<and> After t (mtime (nodes fs si)))"
    by (simp add: target_newer_iff [OF assms(1)])
  from CopyFile_names [OF c assms(1)] have "names fs1 src = Some si" .
  from Remove_ok [OF this assms(2)] False n assms(1) c show ?thesis
    by (auto simp: moveFile_def Stat_def ModTime_def mod_time_def Let_def split: option.splits)
qed

lemma moveFile_placed:
  assumes "names fs src \<noteq> None" and "\<not> remove_fails env src" and "src \<noteq> dst"
    and "target_newer fs src dst \<or> fst (CopyFile env fs src dst) = None"
  shows "\<exists>fs'. moveFile env fs src dst =
            Inr (if target_newer fs src dst then ''File already exists''
                 else if names fs dst = None then ''File created'' else ''File replaced'', fs')
          \<and> read_file fs' dst = (if target_newer fs src dst then read_file fs dst else read_file fs src)
          \<and> names fs' src = None
          \<and> (\<forall>p. p \<noteq> src \<longrightarrow> p \<noteq> dst \<longrightarrow> names fs' p = names fs p)
          \<and> (\<forall>p i. p \<noteq> src \<longrightarrow> names fs p = Some i \<longrightarrow> names fs' p = Some i)"
proof -
  from assms(1) obtain si where si: "names fs src = Some si" by auto
  note r = moveFile_returns [OF si assms(2,4)]
  show ?thesis
  proof (cases "target_newer fs src dst")
    case True
    with r assms(3) show ?thesis
      by (auto simp: read_file_removed)
  next
    case False
    with assms(4) obtain fs1 where c: "CopyFile env fs src dst = (None, fs1)"
      by (cases "CopyFile env fs src dst") auto
    from CopyFile_bytes [OF c si assms(3)] have b: "read_file fs1 dst = read_file fs src" .
    from CopyFile_frame [OF c] have f: "\<And>p. p \<noteq> dst \<Longrightarrow> names fs1 p = names fs p" .
    from CopyFile_names [OF c] have k: "\<And>p i. names fs p = Some i \<Longrightarrow> names fs1 p = Some i" .
    from r False c b f k assms(3) show ?thesis
      by (auto simp: read_file_removed)
  qed
qed

section \<open>Facts about one row of the class list\<close>

lemma mark_submission_fields:
  "NumberOfFiles (mark_submission lib cfg en x parsed) = NumberOfFiles parsed"
  "FiletypeError (mark_submission lib cfg en x parsed) = FiletypeError parsed"
  "Filename (mark_submission lib cfg en x parsed) = Filename parsed"
  "ExamNumber (mark_submission lib cfg en x parsed) = en"
  by (simp_all add: mark_submission_def Let_def)

lemma process_row_learn:
  "learn_files uun = Some learn_file \<Longrightarrow>
   process_row env lib cfg learn_files st (uun # en # given # family # et # rest) =
   learn_branch env lib cfg (st\<lparr>examno := (examno st)(uun \<mapsto> en)\<rparr>) learn_file en (Atoi et)"
  by (simp add: process_row_def index_def Let_def)

lemma process_row_manual:
  "learn_files uun = None \<Longrightarrow>
   process_row env lib cfg learn_files st (uun # en # given # family # et # rest) =
   manual_branch env lib cfg (st\<lparr>examno := (examno st)(uun \<mapsto> en)\<rparr>) uun en"
  by (simp add: process_row_def index_def Let_def)

lemma ParseLearnReceipt_exists:
  "ParseLearnReceipt lib fs p = (parsed, None) \<Longrightarrow> \<exists>i. names fs p = Some i"
  by (auto simp: ParseLearnReceipt_def Stat_def split: option.splits if_splits)

lemma learn_branch_bad:
  assumes "ParseLearnReceipt lib (disk st) (learn_path cfg learn_file) = (parsed, None)"
    and "NumberOfFiles parsed \<noteq> 1 \<or> FiletypeError parsed \<noteq> []"
  shows "learn_branch env lib cfg st learn_file en x =
         Inr (st\<lparr>bad_submissions := bad_submissions st @ [mark_submission lib cfg en x parsed]\<rparr>)"
  using assms by (auto simp: learn_branch_def Let_def mark_submission_fields)

lemma learn_branch_move:
  assumes "ParseLearnReceipt lib (disk st) (learn_path cfg learn_file) = (parsed, None)"
    and "NumberOfFiles parsed = 1" "FiletypeError parsed = []"
  shows "learn_branch env lib cfg st learn_file en x =
     (case moveFile env (disk st) (learn_path cfg (Filename parsed))
             (new_path cfg en (mark_submission lib cfg en x parsed)) of
        Inl a \<Rightarrow> Inl a
      | Inr (filemovestatus, fs1) \<Rightarrow>
          (case (if Contains filemovestatus ''File''
                 then removeFile env fs1 (learn_path cfg learn_file) else Inr fs1) of
             Inl a \<Rightarrow> Inl a
           | Inr fs2 \<Rightarrow>
               Inr (st\<lparr>disk := fs2,
                       submissions := submissions st @
                         [(mark_submission lib cfg en x parsed)\<lparr>OutputFile := filemovestatus\<rparr>]\<rparr>)))"
  using assms by (simp add: learn_branch_def Let_def mark_submission_fields)

lemma learn_branch_keeps:
  assumes "learn_branch env lib cfg st learn_file en x = Inr st'"
    and "names (disk st) p = Some i"
    and "p \<noteq> learn_path cfg (Filename (fst (ParseLearnReceipt lib (disk st) (learn_path cfg learn_file))))"
    and "p \<noteq> learn_path cfg learn_file"
  shows "names (disk st') p = Some i"
proof -
  obtain parsed err where pr: "ParseLearnReceipt lib (disk st) (learn_path cfg learn_file) = (parsed, err)"
    by (cases "ParseLearnReceipt lib (disk st) (learn_path cfg learn_file)") auto
  show ?thesis
  proof (cases "err = None \<and> NumberOfFiles parsed = 1 \<and> FiletypeError parsed = []")
    case False
    with assms(1,2) pr show ?thesis
      by (auto simp: learn_branch_def Let_def mark_submission_fields split: if_splits)
  next
    case True
    with pr have pr': "ParseLearnReceipt lib (disk st) (learn_path cfg learn_file) = (parsed, None)"
      by simp
    from True have n: "NumberOfFiles parsed = 1" "FiletypeError parsed = []" by auto
    from assms(1) obtain status fs1 where
      m: "moveFile env (disk st) (learn_path cfg (Filename parsed))
            (new_path cfg en (mark_submission lib cfg en x parsed)) = Inr (status, fs1)"
      by (auto simp: learn_branch_move [OF pr' n] split: sum.splits)
    from assms(3) pr have "p \<noteq> learn_path cfg (Filename parsed)" by simp
    from moveFile_keeps_names [OF m assms(2) this] have k: "names fs1 p = Some i" .
    from assms(1) m k assms(4) show ?thesis
      by (auto simp: learn_branch_move [OF pr' n] split: sum.splits if_splits dest!: removeFile_Inr)
  qed
qed

lemma manual_branch_absent:
  "names (disk st) (learn_path cfg (ToLower lib uun @ ''.pdf'')) = None \<Longrightarrow>
   manual_branch env lib cfg st uun en = Inr st"
  by (simp add: manual_branch_def Stat_def Let_def)

lemma manual_branch_present:
  "names (disk st) (learn_path cfg (ToLower lib uun @ ''.pdf'')) \<noteq> None \<Longrightarrow>
   manual_branch env lib cfg st uun en =
     (case moveFile env (disk st) (learn_path cfg (ToLower lib uun @ ''.pdf'')) (plain_path cfg en) of
        Inl a \<Rightarrow> Inl a
      | Inr (status, fs1) \<Rightarrow>
          Inr (st\<lparr>disk := fs1,
                  submissions := submissions st @
                    [zero_submission\<lparr>UUN := uun, ExamNumber := en, OutputFile := status\<rparr>]\<rparr>))"
  by (auto simp: manual_branch_def Stat_def Let_def split: option.splits)

lemma late_path_not_plain: "late_path cfg en \<noteq> plain_path cfg en"
proof
  assume "late_path cfg en = plain_path cfg en"
  then have "length (late_path cfg en) = length (plain_path cfg en)" by simp
  then show False by (simp add: late_path_def plain_path_def)
qed

text \<open>
  The argument of \<open>ToUpper\<close> in the walk is the group of \<open>finduun\<close>: ASCII bytes
  only, so the byte-wise upper case is what \<open>strings.ToUpper\<close> returns.
\<close>

lemma is_digit_ascii: "is_digit c \<Longrightarrow> is_ascii c"
  by (simp add: is_digit_def is_ascii_def Let_def)

lemma extracted_uun_ascii:
  "index (FindStringSubmatch name) 1 = Inr u \<Longrightarrow> list_all is_ascii u \<and> ToUpper u = CHR ''S'' # tl u"
proof (induction name)
  case Nil
  then show ?case by (simp add: index_def)
next
  case (Cons c cs)
  show ?case
  proof (cases "finduun_here (c # cs)")
    case False
    with Cons show ?thesis by simp
  next
    case True
    then obtain cs' where cs: "cs = CHR ''s'' # cs'" and d: "list_all is_digit (take 7 cs')"
      by (cases cs) (auto simp: finduun_here_def)
    from True Cons.prems have u: "u = CHR ''s'' # take 7 cs'"
      by (simp add: index_def cs)
    have up: "upper_char c = c" if "is_digit c" for c
      using that by (simp add: upper_char_def is_digit_def Let_def)
    from d have "map upper_char (take 7 cs') = take 7 cs'"
      by (induction "take 7 cs'" arbitrary: cs') (auto simp: list_all_iff up map_idI)
    moreover have "upper_char (CHR ''s'') = CHR ''S''" by code_simp
    moreover have "is_ascii (CHR ''s'')" by code_simp
    ultimately show ?thesis
      using d by (auto simp: u ToUpper_def list_all_iff is_digit_ascii)
  qed
qed

section \<open>Facts about durations\<close>

lemma sint_minutes:
  assumes "0 \<le> sint x" "sint x \<le> 153722867"
  shows "sint (Minute * (x :: 64 word)) = 60000000000 * sint x"
proof -
  have m: "sint Minute = 60000000000" by (simp add: Minute_def)
  have "sint (Minute * x) = signed_take_bit 63 (sint Minute * sint x)"
    by (simp add: sint_word_ariths)
  also have "\<dots> = signed_take_bit 63 (60000000000 * sint x)" by (simp add: m)
  also have "\<dots> = 60000000000 * sint x"
    using assms by (intro signed_take_bit_int_eq_self) auto
  finally show ?thesis .
qed

lemma zero_sless: "(0 <s (x :: 64 word)) = (0 < sint x)"
  by (simp add: word_sless_alt)

lemma late_submission_in_range:
  assumes "sint x \<le> 153722867"
  shows "late_submission d x t =
         (d < t \<and> (0 < sint x \<longrightarrow> d + 60000000000 * sint x < t))"
  using assms by (auto simp: late_submission_def zero_sless Add_def After_def sint_minutes)

section \<open>The destinations of the receipt-renaming tool\<close>

text \<open>
  In \<open>gradex-ingest.go\<close> every destination that was given out before is announced:
  a receipt whose destination equals that of an earlier receipt has the collision message
  printed. The copy is made all the same.
\<close>

lemma assign_destination_grows:
  assumes "assign_destination out dests sub = ((d, c), dests')"
  shows "dests' d \<noteq> None" and "dests x \<noteq> None \<Longrightarrow> dests' x \<noteq> None"
    and "\<not> c \<Longrightarrow> dests d = None"
  using assms by (auto simp: assign_destination_def Let_def split: if_splits)

lemma assign_destinations_fresh:
  "(d, False) \<in> set (assign_destinations out dests subs) \<Longrightarrow> dests d = None"
proof (induction subs arbitrary: dests)
  case Nil
  then show ?case by simp
next
  case (Cons sub subs)
  obtain d0 c0 dests' where a: "assign_destination out dests sub = ((d0, c0), dests')"
    by (metis prod.exhaust)
  from Cons.prems a consider "(d, False) = (d0, c0)"
    | "(d, False) \<in> set (assign_destinations out dests' subs)"
    by auto
  then show ?case
  proof cases
    case 1
    with assign_destination_grows(3) [OF a] show ?thesis by simp
  next
    case 2
    from Cons.IH [OF 2] have "dests' d = None" .
    with assign_destination_grows(2) [OF a, of d] show ?thesis by (cases "dests d") auto
  qed
qed

lemma assign_destinations_flagged:
  assumes "i < j" and "j < length (assign_destinations out dests subs)"
    and "fst (assign_destinations out dests subs ! i) = fst (assign_destinations out dests subs ! j)"
  shows "snd (assign_destinations out dests subs ! j)"
  using assms
proof (induction subs arbitrary: dests i j)
  case Nil
  then show ?case by simp
next
  case (Cons sub subs)
  obtain d0 c0 dests' where a: "assign_destination out dests sub = ((d0, c0), dests')"
    by (metis prod.exhaust)
  let ?rest = "assign_destinations out dests' subs"
  from Cons.prems(1) obtain j' where j: "j = Suc j'" by (cases j) auto
  with Cons.prems(2) a have j': "j' < length ?rest" by simp
  show ?case
  proof (cases i)
    case 0
    with Cons.prems(3) a j have e: "fst (?rest ! j') = d0" by simp
    have "snd (?rest ! j')"
    proof (rule ccontr)
      assume "\<not> snd (?rest ! j')"
      with e have "?rest ! j' = (d0, False)" by (cases "?rest ! j'") auto
      with j' have "(d0, False) \<in> set ?rest" by (metis nth_mem)
      from assign_destinations_fresh [OF this] assign_destination_grows(1) [OF a]
      show False by simp
    qed
    with a j show ?thesis by simp
  next
    case (Suc i')
    with Cons.prems a j have "i' < j'" "fst (?rest ! i') = fst (?rest ! j')" by auto
    from Cons.IH [OF this(1) j' this(2)] a j show ?thesis by simp
  qed
qed

section \<open>The claims\<close>

subsection \<open>C4: the lateness decision\<close>




subsection \<open>C9: the lateness decision is monotone\<close>

text \<open>
  C9, as amended. For a fixed deadline and submission time, a submission that is on
  time with \<open>x\<close> minutes of extra time is on time with any \<open>x' \<ge> x\<close> up to 153722867
  minutes; for a fixed extra time, a submission that is late at \<open>t\<close> is late at any
  later time \<open>t'\<close>.
\<close>

theorem C9_lateness_monotone:
  "(sint x \<le> sint x' \<and> sint x' \<le> 153722867 \<and> \<not> late_submission d x t
      \<longrightarrow> \<not> late_submission d x' t) \<and>
   (t \<le> t' \<and> late_submission d x t \<longrightarrow> late_submission d x t')"
proof (intro conjI impI)
  assume a: "sint x \<le> sint x' \<and> sint x' \<le> 153722867 \<and> \<not> late_submission d x t"
  then have "sint x \<le> 153722867" by simp
  with a show "\<not> late_submission d x' t"
    by (auto simp: late_submission_in_range)
next
  assume "t \<le> t' \<and> late_submission d x t"
  then show "late_submission d x t'"
    by (auto simp: late_submission_def After_def split: if_splits)
qed

text \<open>
  On time at 16:20 with 30 minutes, so on time with 45; late at 16:05 without extra
  time, so late at 16:20.
\<close>

theorem C9_lateness_monotone_witness:
  "(sint (30 :: 64 word) \<le> sint (45 :: 64 word) \<and> sint (45 :: 64 word) \<le> 153722867
      \<and> \<not> late_submission 1587571200000000000 30 1587572400000000000
      \<and> \<not> late_submission 1587571200000000000 45 1587572400000000000) \<and>
   ((1587571500000000000 :: int) \<le> 1587572400000000000
      \<and> late_submission 1587571200000000000 0 1587571500000000000
      \<and> late_submission 1587571200000000000 0 1587572400000000000)"
  using C9_lateness_monotone [of 30 45 1587571200000000000 1587572400000000000]
    C9_lateness_monotone [of 0 _ 1587571200000000000 1587571500000000000 1587572400000000000]
  by (simp add: late_submission_def After_def Add_def Minute_def zero_sless)

text \<open>
  C9 as stated fails: a script handed in at 16:20 is on time with 30 minutes of extra
  time and late with 153722868 minutes, where the shift wraps.
\<close>

theorem C9_overflow_counterexample:
  "sint (30 :: 64 word) \<le> sint (153722868 :: 64 word) \<and>
   \<not> late_submission 1587571200000000000 30 1587572400000000000 \<and>
   late_submission 1587571200000000000 153722868 1587572400000000000"
  by (simp add: late_submission_def After_def Add_def Minute_def zero_sless)

subsection \<open>C5: the three outcomes of moveFile\<close>

text \<open>
  C5, as amended. For every call of \<open>moveFile\<close> where the source exists and
  \<open>os.Remove\<close> of the source does not fail: (1) if the target does not exist and the
  copy succeeds, the target holds the bytes of the source, the source is removed and the
  status is \<open>File created\<close>; (2) if the target exists and was modified after the
  source, the target keeps its bytes and its time, the source is removed and the status is
  \<open>File already exists\<close>; (3) if the target exists, the source was modified after it
  and the copy succeeds, the target holds the bytes of the source, the source is removed
  and the status is \<open>File replaced\<close>. When \<open>os.Remove\<close> fails, \<open>moveFile\<close>
  panics instead.
\<close>

theorem C5_moveFile_cases:
  assumes src: "names fs src \<noteq> None" and rm: "\<not> remove_fails env src"
  shows "(names fs dst = None \<and> fst (CopyFile env fs src dst) = None \<longrightarrow>
           (\<exists>fs'. moveFile env fs src dst = Inr (''File created'', fs') \<and>
                  read_file fs' dst = read_file fs src \<and> names fs' src = None))
       \<and> (target_newer fs src dst \<longrightarrow>
           (\<exists>fs'. moveFile env fs src dst = Inr (''File already exists'', fs') \<and>
                  read_file fs' dst = read_file fs dst \<and> mod_time fs' dst = mod_time fs dst \<and>
                  names fs' src = None))
       \<and> (source_newer fs src dst \<and> fst (CopyFile env fs src dst) = None \<longrightarrow>
           (\<exists>fs'. moveFile env fs src dst = Inr (''File replaced'', fs') \<and>
                  read_file fs' dst = read_file fs src \<and> names fs' src = None))"
proof (intro conjI impI)
  from src obtain si where si: "names fs src = Some si" by auto
  {
    assume a: "names fs dst = None \<and> fst (CopyFile env fs src dst) = None"
    then obtain fs1 where c: "CopyFile env fs src dst = (None, fs1)"
      by (cases "CopyFile env fs src dst") auto
    from CopyFile_created [OF c _ si] a
    have r: "read_file fs1 dst = read_file fs src" "names fs1 src = Some si" by auto
    from a si have ne: "src \<noteq> dst" by auto
    have "moveFile env fs src dst = Inr (''File created'', fs1\<lparr>names := (names fs1)(src := None)\<rparr>)"
      using a si c Remove_ok [OF r(2) rm]
      by (simp add: moveFile_def Stat_def)
    with r ne show "\<exists>fs'. moveFile env fs src dst = Inr (''File created'', fs') \<and>
                    read_file fs' dst = read_file fs src \<and> names fs' src = None"
      by (auto simp: read_file_removed)
  }
  {
    assume "target_newer fs src dst"
    then obtain di where d: "names fs dst = Some di" "mtime (nodes fs si) < mtime (nodes fs di)"
      using si by (auto simp: target_newer_def mod_time_def After_def split: option.splits)
    with si have ne: "src \<noteq> dst" by auto
    have "moveFile env fs src dst = Inr (''File already exists'', fs\<lparr>names := (names fs)(src := None)\<rparr>)"
      using d si Remove_ok [OF si rm]
      by (simp add: moveFile_def Stat_def ModTime_def After_def)
    with ne show "\<exists>fs'. moveFile env fs src dst = Inr (''File already exists'', fs') \<and>
                    read_file fs' dst = read_file fs dst \<and> mod_time fs' dst = mod_time fs dst \<and>
                    names fs' src = None"
      by (auto simp: read_file_removed mod_time_def split: option.splits)
  }
  {
    assume a: "source_newer fs src dst \<and> fst (CopyFile env fs src dst) = None"
    then obtain di where d: "names fs dst = Some di" "mtime (nodes fs di) < mtime (nodes fs si)"
      using si by (auto simp: source_newer_def mod_time_def After_def split: option.splits)
    with si have ne: "src \<noteq> dst" "si \<noteq> di" by auto
    from a obtain fs1 where c: "CopyFile env fs src dst = (None, fs1)"
      by (cases "CopyFile env fs src dst") auto
    from CopyFile_replaced [OF c d(1) si ne(2)]
    have r: "read_file fs1 dst = read_file fs src" "names fs1 src = Some si" by auto
    have "moveFile env fs src dst = Inr (''File replaced'', fs1\<lparr>names := (names fs1)(src := None)\<rparr>)"
      using d si c Remove_ok [OF r(2) rm]
      by (simp add: moveFile_def Stat_def ModTime_def After_def)
    with r ne show "\<exists>fs'. moveFile env fs src dst = Inr (''File replaced'', fs') \<and>
                    read_file fs' dst = read_file fs src \<and> names fs' src = None"
      by (auto simp: read_file_removed)
  }
qed

text \<open>
  The script of the first student moved to a free name, to a name taken by a newer file
  and to a name taken by an older file.
\<close>

theorem C5_moveFile_cases_witness:
  "names course_disk ''L/x_s1111111_attempt_1_a.pdf'' \<noteq> None
   \<and> \<not> remove_fails calm ''L/x_s1111111_attempt_1_a.pdf''
   \<and> (names course_disk ''O/B001.pdf'' = None
      \<and> fst (CopyFile calm course_disk ''L/x_s1111111_attempt_1_a.pdf'' ''O/B001.pdf'') = None
      \<and> (\<exists>fs'. moveFile calm course_disk ''L/x_s1111111_attempt_1_a.pdf'' ''O/B001.pdf''
                  = Inr (''File created'', fs')
              \<and> read_file fs' ''O/B001.pdf'' = read_file course_disk ''L/x_s1111111_attempt_1_a.pdf''
              \<and> names fs' ''L/x_s1111111_attempt_1_a.pdf'' = None))
   \<and> (target_newer course_disk ''L/x_s1111111_attempt_1_a.pdf'' ''O/B009.pdf''
      \<and> (\<exists>fs'. moveFile calm course_disk ''L/x_s1111111_attempt_1_a.pdf'' ''O/B009.pdf''
                  = Inr (''File already exists'', fs')
              \<and> read_file fs' ''O/B009.pdf'' = read_file course_disk ''O/B009.pdf''
              \<and> mod_time fs' ''O/B009.pdf'' = mod_time course_disk ''O/B009.pdf''
              \<and> names fs' ''L/x_s1111111_attempt_1_a.pdf'' = None))
   \<and> (source_newer course_disk ''L/x_s1111111_attempt_1_a.pdf'' ''O/B000.pdf''
      \<and> fst (CopyFile calm course_disk ''L/x_s1111111_attempt_1_a.pdf'' ''O/B000.pdf'') = None
      \<and> (\<exists>fs'. moveFile calm course_disk ''L/x_s1111111_attempt_1_a.pdf'' ''O/B000.pdf''
                  = Inr (''File replaced'', fs')
              \<and> read_file fs' ''O/B000.pdf'' = read_file course_disk ''L/x_s1111111_attempt_1_a.pdf''
              \<and> names fs' ''L/x_s1111111_attempt_1_a.pdf'' = None))"
proof -
  let ?p = "''L/x_s1111111_attempt_1_a.pdf''"
  have h1: "names course_disk ?p \<noteq> None" by code_simp
  have h2: "\<not> remove_fails calm ?p" by code_simp
  have a: "names course_disk ''O/B001.pdf'' = None
      \<and> fst (CopyFile calm course_disk ?p ''O/B001.pdf'') = None" by code_simp
  have b: "target_newer course_disk ?p ''O/B009.pdf''" by code_simp
  have c: "source_newer course_disk ?p ''O/B000.pdf''
      \<and> fst (CopyFile calm course_disk ?p ''O/B000.pdf'') = None" by code_simp
  note t = C5_moveFile_cases [OF h1 h2]
  from t [of "''O/B001.pdf''"] a
  have ra: "\<exists>fs'. moveFile calm course_disk ?p ''O/B001.pdf'' = Inr (''File created'', fs')
              \<and> read_file fs' ''O/B001.pdf'' = read_file course_disk ?p
              \<and> names fs' ?p = None" by blast
  from t [of "''O/B009.pdf''"] b
  have rb: "\<exists>fs'. moveFile calm course_disk ?p ''O/B009.pdf'' = Inr (''File already exists'', fs')
              \<and> read_file fs' ''O/B009.pdf'' = read_file course_disk ''O/B009.pdf''
              \<and> mod_time fs' ''O/B009.pdf'' = mod_time course_disk ''O/B009.pdf''
              \<and> names fs' ?p = None" by blast
  from t [of "''O/B000.pdf''"] c
  have rc: "\<exists>fs'. moveFile calm course_disk ?p ''O/B000.pdf'' = Inr (''File replaced'', fs')
              \<and> read_file fs' ''O/B000.pdf'' = read_file course_disk ?p
              \<and> names fs' ?p = None" by blast
  from h1 h2 a b c ra rb rc show ?thesis by blast
qed

text \<open>
  C5 as stated fails: the source exists and the target is newer, but the Learn folder is
  read-only; \<open>os.Remove\<close> returns an error, \<open>check\<close> panics, and there is neither
  a status nor a removed source.
\<close>

theorem C5_removal_failure_counterexample:
  "names course_disk ''L/x_s1111111_attempt_1_a.pdf'' \<noteq> None
   \<and> target_newer course_disk ''L/x_s1111111_attempt_1_a.pdf'' ''O/B009.pdf''
   \<and> move_outcome read_only course_disk ''L/x_s1111111_attempt_1_a.pdf'' ''O/B009.pdf''
       = Inl (Panic ErrPermission)"
  by code_simp

subsection \<open>C7: submissions that need manual work\<close>

text \<open>
  C7. For every student with a receipt that parses, when the declared number of files
  is not 1 or a filetype error is recorded, the row ends without a panic, the submission
  is appended to the bad submissions, the successes are unchanged and no file is
  written, moved or removed: the file system is the same. So a placement is attempted
  only when the declared number of files is 1 and no filetype error is recorded.
\<close>

theorem C7_bad_submission_quarantined:
  assumes "learn_files uun = Some learn_file"
    and "ParseLearnReceipt lib (disk st) (learn_path cfg learn_file) = (parsed, None)"
    and "NumberOfFiles parsed \<noteq> 1 \<or> FiletypeError parsed \<noteq> []"
  shows "\<exists>st'. process_row env lib cfg learn_files st (uun # en # given # family # et # rest) = Inr st'
           \<and> bad_submissions st' = bad_submissions st @ [mark_submission lib cfg en (Atoi et) parsed]
           \<and> submissions st' = submissions st
           \<and> disk st' = disk st"
proof -
  have "learn_branch env lib cfg (st\<lparr>examno := (examno st)(uun \<mapsto> en)\<rparr>) learn_file en (Atoi et) =
        Inr (st\<lparr>examno := (examno st)(uun \<mapsto> en),
                bad_submissions := bad_submissions st @ [mark_submission lib cfg en (Atoi et) parsed]\<rparr>)"
    using assms(2,3) by (simp add: learn_branch_bad [where parsed = parsed])
  then show ?thesis
    using assms(1) by (simp add: process_row_learn)
qed

text \<open>The third student of the small course declares two files.\<close>

theorem C7_bad_submission_quarantined_witness:
  "course_index ''S3333333'' = Some ''x_s3333333_attempt_1.txt''
   \<and> ParseLearnReceipt course_lib (disk (initial_state course_disk))
        (learn_path course_cfg ''x_s3333333_attempt_1.txt'')
      = ((receipt_of ''s3333333'' ''2020-04-22-15-00-00'')\<lparr>NumberOfFiles := 2\<rparr>, None)
   \<and> NumberOfFiles ((receipt_of ''s3333333'' ''2020-04-22-15-00-00'')\<lparr>NumberOfFiles := 2\<rparr>) \<noteq> 1
   \<and> (\<exists>st'. process_row calm course_lib course_cfg course_index (initial_state course_disk)
               [''S3333333'', ''B003'', ''Cy'', ''Poe'', ''0''] = Inr st'
          \<and> bad_submissions st' = bad_submissions (initial_state course_disk) @
               [mark_submission course_lib course_cfg ''B003'' (Atoi ''0'')
                  ((receipt_of ''s3333333'' ''2020-04-22-15-00-00'')\<lparr>NumberOfFiles := 2\<rparr>)]
          \<and> submissions st' = submissions (initial_state course_disk)
          \<and> disk st' = disk (initial_state course_disk))"
proof -
  let ?parsed = "(receipt_of ''s3333333'' ''2020-04-22-15-00-00'')\<lparr>NumberOfFiles := 2\<rparr>"
  have h1: "course_index ''S3333333'' = Some ''x_s3333333_attempt_1.txt''" by code_simp
  have h2: "ParseLearnReceipt course_lib (disk (initial_state course_disk))
        (learn_path course_cfg ''x_s3333333_attempt_1.txt'') = (?parsed, None)" by code_simp
  have h3: "NumberOfFiles ?parsed \<noteq> 1" by code_simp
  then have h3': "NumberOfFiles ?parsed \<noteq> 1 \<or> FiletypeError ?parsed \<noteq> []" by simp
  from C7_bad_submission_quarantined [where learn_files = course_index and uun = "''S3333333''"
      and env = calm and en = "''B003''" and given = "''Cy''" and family = "''Poe''"
      and et = "''0''" and rest = "[]", OF h1 h2 h3']
    h1 h2 h3
  show ?thesis by blast
qed

subsection \<open>C2: a copy that fails\<close>

text \<open>
  C2, as amended. For every student with a receipt that parses and declares one file
  without a filetype error, whose script exists and whose target is not newer: when
  \<open>CopyFile\<close> returns an error, \<open>moveFile\<close> returns the status \<open>Done Nothing\<close>
  (the error is printed and dropped), the row ends without a panic, and the script and
  the receipt stay in the Learn folder.
\<close>

theorem C2_copy_failure_recorded:
  assumes "learn_files uun = Some learn_file"
    and "ParseLearnReceipt lib (disk st) (learn_path cfg learn_file) = (parsed, None)"
    and "NumberOfFiles parsed = 1" and "FiletypeError parsed = []"
    and "names (disk st) (learn_path cfg (Filename parsed)) \<noteq> None"
    and "\<not> target_newer (disk st) (learn_path cfg (Filename parsed))
             (new_path cfg en (mark_submission lib cfg en (Atoi et) parsed))"
    and "fst (CopyFile env (disk st) (learn_path cfg (Filename parsed))
           (new_path cfg en (mark_submission lib cfg en (Atoi et) parsed))) \<noteq> None"
  shows "move_outcome env (disk st) (learn_path cfg (Filename parsed))
           (new_path cfg en (mark_submission lib cfg en (Atoi et) parsed)) = Inr ''Done Nothing''
       \<and> (\<exists>st'. process_row env lib cfg learn_files st (uun # en # given # family # et # rest) = Inr st'
           \<and> names (disk st') (learn_path cfg (Filename parsed)) \<noteq> None
           \<and> names (disk st') (learn_path cfg learn_file) \<noteq> None)"
proof -
  let ?st1 = "st\<lparr>examno := (examno st)(uun \<mapsto> en)\<rparr>"
  let ?sub = "mark_submission lib cfg en (Atoi et) parsed"
  let ?src = "learn_path cfg (Filename parsed)"
  let ?dst = "new_path cfg en ?sub"
  from assms(5) obtain si where s: "names (disk st) ?src = Some si" by auto
  from assms(7) obtain e fs1 where c: "CopyFile env (disk st) ?src ?dst = (Some e, fs1)"
    by (cases "CopyFile env (disk st) ?src ?dst") auto
  from assms(6) have "\<not> (\<exists>t. mod_time (disk st) ?dst = Some t \<and> After t (mtime (nodes (disk st) si)))"
    by (simp add: target_newer_iff [OF s])
  from moveFile_copy_fails [OF s c this]
  have m: "moveFile env (disk st) ?src ?dst = Inr (''Done Nothing'', fs1)" .
  from ParseLearnReceipt_exists [OF assms(2)] obtain ri
    where r: "names (disk st) (learn_path cfg learn_file) = Some ri" by blast
  have k1: "names fs1 ?src = Some si"
    using CopyFile_names [OF c s] .
  have k2: "names fs1 (learn_path cfg learn_file) = Some ri"
    using CopyFile_names [OF c r] .
  have "learn_branch env lib cfg ?st1 learn_file en (Atoi et) =
        Inr (?st1\<lparr>disk := fs1, submissions := submissions ?st1 @ [?sub\<lparr>OutputFile := ''Done Nothing''\<rparr>]\<rparr>)"
    using assms(2,3,4) m
    by (simp add: learn_branch_move [where parsed = parsed] HasPrefix_def)
  with k1 k2 m show ?thesis
    using assms(1) by (simp add: process_row_learn move_outcome_def)
qed

text \<open>The first student of the small course when the output folder cannot be written to.\<close>

theorem C2_copy_failure_recorded_witness:
  "course_index ''S1111111'' = Some ''x_s1111111_attempt_1.txt''
   \<and> ParseLearnReceipt course_lib (disk (initial_state course_disk))
        (learn_path course_cfg ''x_s1111111_attempt_1.txt'')
      = (receipt_of ''s1111111'' ''2020-04-22-15-59-00'', None)
   \<and> NumberOfFiles (receipt_of ''s1111111'' ''2020-04-22-15-59-00'') = 1
   \<and> FiletypeError (receipt_of ''s1111111'' ''2020-04-22-15-59-00'') = []
   \<and> names (disk (initial_state course_disk))
        (learn_path course_cfg (Filename (receipt_of ''s1111111'' ''2020-04-22-15-59-00''))) \<noteq> None
   \<and> \<not> target_newer (disk (initial_state course_disk))
        (learn_path course_cfg (Filename (receipt_of ''s1111111'' ''2020-04-22-15-59-00'')))
        (new_path course_cfg ''B001'' (mark_submission course_lib course_cfg ''B001'' (Atoi ''0'')
           (receipt_of ''s1111111'' ''2020-04-22-15-59-00'')))
   \<and> fst (CopyFile no_write (disk (initial_state course_disk))
        (learn_path course_cfg (Filename (receipt_of ''s1111111'' ''2020-04-22-15-59-00'')))
        (new_path course_cfg ''B001'' (mark_submission course_lib course_cfg ''B001'' (Atoi ''0'')
           (receipt_of ''s1111111'' ''2020-04-22-15-59-00'')))) \<noteq> None
   \<and> move_outcome no_write (disk (initial_state course_disk))
        (learn_path course_cfg (Filename (receipt_of ''s1111111'' ''2020-04-22-15-59-00'')))
        (new_path course_cfg ''B001'' (mark_submission course_lib course_cfg ''B001'' (Atoi ''0'')
           (receipt_of ''s1111111'' ''2020-04-22-15-59-00''))) = Inr ''Done Nothing''
   \<and> (\<exists>st'. process_row no_write course_lib course_cfg course_index (initial_state course_disk)
               [''S1111111'', ''B001'', ''Ann'', ''Lee'', ''0''] = Inr st'
          \<and> names (disk st')
               (learn_path course_cfg (Filename (receipt_of ''s1111111'' ''2020-04-22-15-59-00''))) \<noteq> None
          \<and> names (disk st') (learn_path course_cfg ''x_s1111111_attempt_1.txt'') \<noteq> None)"
proof -
  let ?parsed = "receipt_of ''s1111111'' ''2020-04-22-15-59-00''"
  let ?st = "initial_state course_disk"
  let ?src = "learn_path course_cfg (Filename ?parsed)"
  let ?dst = "new_path course_cfg ''B001'' (mark_submission course_lib course_cfg ''B001'' (Atoi ''0'') ?parsed)"
  have h1: "course_index ''S1111111'' = Some ''x_s1111111_attempt_1.txt''" by code_simp
  have h2: "ParseLearnReceipt course_lib (disk ?st)
        (learn_path course_cfg ''x_s1111111_attempt_1.txt'') = (?parsed, None)" by code_simp
  have h3: "NumberOfFiles ?parsed = 1" by code_simp
  have h4: "FiletypeError ?parsed = []" by code_simp
  have h5: "names (disk ?st) ?src \<noteq> None" by code_simp
  have h6: "\<not> target_newer (disk ?st) ?src ?dst" by code_simp
  have h7: "fst (CopyFile no_write (disk ?st) ?src ?dst) \<noteq> None" by code_simp
  from C2_copy_failure_recorded [where learn_files = course_index and uun = "''S1111111''"
      and given = "''Ann''" and family = "''Lee''" and rest = "[]", OF h1 h2 h3 h4 h5 h6 h7]
    h1 h2 h3 h4 h5 h6 h7
  show ?thesis by blast
qed

text \<open>
  C2 as stated fails: the copy of the first student's script fails, and the run ends
  with the submission in the report of successes and nothing in the report of bad
  submissions.
\<close>

theorem C2_quarantine_counterexample:
  "fst (CopyFile no_write course_disk ''L/x_s1111111_attempt_1_a.pdf'' ''O/B001.pdf'')
     = Some ErrPermission
   \<and> reports (ingest no_write course_lib course_cfg course_walk
        [[''S1111111'', ''B001'', ''Ann'', ''Lee'', ''0'']] course_disk)
     = Inr ([recorded (receipt_of ''s1111111'' ''2020-04-22-15-59-00'') ''B001'' 0 [] ''Done Nothing''],
            [])"
  by code_simp

subsection \<open>C10: the receipt goes when the script was moved\<close>

text \<open>
  C10, as amended. For every student with a receipt that parses and declares one file
  without a filetype error: when \<open>moveFile\<close> returns \<open>File created\<close>,
  \<open>File replaced\<close> or \<open>File already exists\<close> and \<open>os.Remove\<close> of the receipt
  does not fail, the row ends without a panic and neither the receipt nor the script is
  in the Learn folder any more (also for \<open>File already exists\<close>, where nothing was
  copied). When \<open>os.Remove\<close> of the receipt fails, the run panics instead.
\<close>

theorem C10_receipt_removed:
  assumes "learn_files uun = Some learn_file"
    and "ParseLearnReceipt lib (disk st) (learn_path cfg learn_file) = (parsed, None)"
    and "NumberOfFiles parsed = 1" and "FiletypeError parsed = []"
    and "move_outcome env (disk st) (learn_path cfg (Filename parsed))
           (new_path cfg en (mark_submission lib cfg en (Atoi et) parsed)) = Inr status"
    and "status \<in> {''File created'', ''File replaced'', ''File already exists''}"
    and "fst (Remove env
           (disk_after_move env (disk st) (learn_path cfg (Filename parsed))
              (new_path cfg en (mark_submission lib cfg en (Atoi et) parsed)))
           (learn_path cfg learn_file)) = None"
  shows "\<exists>st'. process_row env lib cfg learn_files st (uun # en # given # family # et # rest) = Inr st'
           \<and> names (disk st') (learn_path cfg learn_file) = None
           \<and> names (disk st') (learn_path cfg (Filename parsed)) = None"
proof -
  let ?st1 = "st\<lparr>examno := (examno st)(uun \<mapsto> en)\<rparr>"
  let ?sub = "mark_submission lib cfg en (Atoi et) parsed"
  let ?receipt = "learn_path cfg learn_file"
  from move_outcome_Inr [OF assms(5)] obtain fs1 where
    m: "moveFile env (disk st) (learn_path cfg (Filename parsed)) (new_path cfg en ?sub) = Inr (status, fs1)"
    by blast
  have c: "Contains status ''File''"
    using assms(6) by (auto simp: HasPrefix_def)
  have s: "status \<noteq> ''Done Nothing''"
    using assms(6) by auto
  have g: "names fs1 (learn_path cfg (Filename parsed)) = None"
    using moveFile_source_gone [OF m s] .
  from assms(7) have "fst (Remove env fs1 ?receipt) = None"
    by (simp add: disk_after_move_Inr [OF m])
  then have "removeFile env fs1 ?receipt = Inr (fs1\<lparr>names := (names fs1)(?receipt := None)\<rparr>)"
    by (simp add: removeFile_Remove)
  then have "learn_branch env lib cfg ?st1 learn_file en (Atoi et) =
        Inr (?st1\<lparr>disk := fs1\<lparr>names := (names fs1)(?receipt := None)\<rparr>,
                  submissions := submissions ?st1 @ [?sub\<lparr>OutputFile := status\<rparr>]\<rparr>)"
    using assms(2,3,4) m c
    by (simp add: learn_branch_move [where parsed = parsed])
  with g show ?thesis
    using assms(1) by (simp add: process_row_learn)
qed

text \<open>The first student of the small course when nothing fails.\<close>

theorem C10_receipt_removed_witness:
  "course_index ''S1111111'' = Some ''x_s1111111_attempt_1.txt''
   \<and> ParseLearnReceipt course_lib (disk (initial_state course_disk))
        (learn_path course_cfg ''x_s1111111_attempt_1.txt'')
      = (receipt_of ''s1111111'' ''2020-04-22-15-59-00'', None)
   \<and> NumberOfFiles (receipt_of ''s1111111'' ''2020-04-22-15-59-00'') = 1
   \<and> FiletypeError (receipt_of ''s1111111'' ''2020-04-22-15-59-00'') = []
   \<and> move_outcome calm (disk (initial_state course_disk))
        (learn_path course_cfg (Filename (receipt_of ''s1111111'' ''2020-04-22-15-59-00'')))
        (new_path course_cfg ''B001'' (mark_submission course_lib course_cfg ''B001'' (Atoi ''0'')
           (receipt_of ''s1111111'' ''2020-04-22-15-59-00''))) = Inr ''File created''
   \<and> ''File created'' \<in> {''File created'', ''File replaced'', ''File already exists''}
   \<and> fst (Remove calm
        (disk_after_move calm (disk (initial_state course_disk))
           (learn_path course_cfg (Filename (receipt_of ''s1111111'' ''2020-04-22-15-59-00'')))
           (new_path course_cfg ''B001'' (mark_submission course_lib course_cfg ''B001'' (Atoi ''0'')
              (receipt_of ''s1111111'' ''2020-04-22-15-59-00''))))
        (learn_path course_cfg ''x_s1111111_attempt_1.txt'')) = None
   \<and> (\<exists>st'. process_row calm course_lib course_cfg course_index (initial_state course_disk)
               [''S1111111'', ''B001'', ''Ann'', ''Lee'', ''0''] = Inr st'
          \<and> names (disk st') (learn_path course_cfg ''x_s1111111_attempt_1.txt'') = None
          \<and> names (disk st')
               (learn_path course_cfg (Filename (receipt_of ''s1111111'' ''2020-04-22-15-59-00''))) = None)"
proof -
  let ?parsed = "receipt_of ''s1111111'' ''2020-04-22-15-59-00''"
  let ?st = "initial_state course_disk"
  let ?src = "learn_path course_cfg (Filename ?parsed)"
  let ?dst = "new_path course_cfg ''B001'' (mark_submission course_lib course_cfg ''B001'' (Atoi ''0'') ?parsed)"
  let ?receipt = "learn_path course_cfg ''x_s1111111_attempt_1.txt''"
  have h1: "course_index ''S1111111'' = Some ''x_s1111111_attempt_1.txt''" by code_simp
  have h2: "ParseLearnReceipt course_lib (disk ?st) ?receipt = (?parsed, None)" by code_simp
  have h3: "NumberOfFiles ?parsed = 1" by code_simp
  have h4: "FiletypeError ?parsed = []" by code_simp
  have h5: "move_outcome calm (disk ?st) ?src ?dst = Inr ''File created''" by code_simp
  have h6: "''File created'' \<in> {''File created'', ''File replaced'', ''File already exists''}" by simp
  have h7: "fst (Remove calm (disk_after_move calm (disk ?st) ?src ?dst) ?receipt) = None"
    by code_simp
  from C10_receipt_removed [where learn_files = course_index and uun = "''S1111111''"
      and given = "''Ann''" and family = "''Lee''" and rest = "[]", OF h1 h2 h3 h4 h5 h6 h7]
    h1 h2 h3 h4 h5 h6 h7
  show ?thesis by blast
qed

text \<open>
  C10 as stated fails: the script of the first student is moved with the status
  \<open>File created\<close>, the receipt cannot be removed, and the run ends in the panic of
  \<open>check\<close> with the receipt still in the Learn folder.
\<close>

theorem C10_locked_receipt_counterexample:
  "move_outcome receipts_locked course_disk ''L/x_s1111111_attempt_1_a.pdf'' ''O/B001.pdf''
     = Inr ''File created''
   \<and> reports (ingest receipts_locked course_lib course_cfg course_walk
        [[''S1111111'', ''B001'', ''Ann'', ''Lee'', ''0'']] course_disk)
     = Inl (Panic ErrPermission)"
  by code_simp

subsection \<open>C3: two students, one target\<close>




subsection \<open>C1: a text file without a UUN in its name\<close>

lemma FindStringSubmatch_length:
  "FindStringSubmatch s = [] \<or> length (FindStringSubmatch s) = 2"
  by (induction s) auto

lemma build_index_panic:
  "build_index walk m = Inl a \<Longrightarrow> a = IndexOutOfRange 1 0"
proof (induction walk arbitrary: m)
  case Nil
  then show ?case by simp
next
  case (Cons e walk)
  obtain name is_dir where e: "e = (name, is_dir)" by (cases e)
  from FindStringSubmatch_length [of name] Cons show ?case
    by (auto simp: e index_def split: if_splits sum.splits)
qed

text \<open>
  C1, on the code. When the walk of the Learn folder meets a file whose name matches
  \<open>.txt\<close> and holds no UUN, \<open>FindStringSubmatch\<close> returns nil and element 1 of it is
  read: the run panics with an index out of range, whatever else is in the folder, and
  the class list is never read. The file is not skipped and no failure is returned.
\<close>

theorem C1_unmatched_txt_panics:
  assumes "(name, False) \<in> set walk" and "match_txt name" and "FindStringSubmatch name = []"
  shows "ingest env lib cfg walk records f = Inl (IndexOutOfRange 1 0)"
proof -
  have "\<exists>a. build_index walk m = Inl a" for m
    using assms(1)
  proof (induction walk arbitrary: m)
    case Nil
    then show ?case by simp
  next
    case (Cons e walk)
    obtain n d where e: "e = (n, d)" by (cases e)
    show ?case
    proof (cases "e = (name, False)")
      case True
      with assms(2,3) show ?thesis by (simp add: index_def)
    next
      case False
      with Cons.prems have "(name, False) \<in> set walk" by simp
      from Cons.IH [OF this] show ?thesis
        by (simp add: e split: sum.splits)
    qed
  qed
  then obtain a where a: "build_index walk Map.empty = Inl a" by blast
  from build_index_panic [OF a] a show ?thesis
    by (simp add: ingest_def)
qed

text \<open>A Learn folder that also holds \<open>readme.txt\<close>.\<close>

theorem C1_unmatched_txt_panics_witness:
  "(''readme.txt'', False) \<in> set ((''readme.txt'', False) # course_walk)
   \<and> match_txt ''readme.txt'' \<and> FindStringSubmatch ''readme.txt'' = []
   \<and> ingest calm course_lib course_cfg ((''readme.txt'', False) # course_walk) pair course_disk
       = Inl (IndexOutOfRange 1 0)"
proof -
  have h1: "(''readme.txt'', False) \<in> set ((''readme.txt'', False) # course_walk)" by simp
  have h2: "match_txt ''readme.txt''" by (simp add: HasPrefix_def)
  have h3: "FindStringSubmatch ''readme.txt'' = []" by (simp add: finduun_here_def)
  from C1_unmatched_txt_panics [OF h1 h2 h3] h1 h2 h3 show ?thesis by blast
qed

subsection \<open>C6: what ends the run and what does not\<close>

text \<open>
  C6, as amended. For a student with a receipt that parses and declares one file without
  a filetype error, at any row of the class list: a missing script, a failing removal of
  the script after a successful copy, and a failing removal of the receipt after the
  script was moved each end the run in a panic, so no later row is processed and no
  report is written; a copy that fails does not end the run: the row is recorded with
  \<open>Done Nothing\<close> and the loop goes on with the rows that follow.
\<close>

theorem C6_failures_in_a_row:
  assumes "learn_files uun = Some learn_file"
    and "ParseLearnReceipt lib (disk st) (learn_path cfg learn_file) = (parsed, None)"
    and "NumberOfFiles parsed = 1" and "FiletypeError parsed = []"
  shows
   "(names (disk st) (learn_path cfg (Filename parsed)) = None \<longrightarrow>
       process_rows env lib cfg learn_files st ((uun # en # given # family # et # rest) # records)
         = Inl (Panic ErrNotExist))
  \<and> (names (disk st) (learn_path cfg (Filename parsed)) \<noteq> None
       \<and> remove_fails env (learn_path cfg (Filename parsed))
       \<and> fst (CopyFile env (disk st) (learn_path cfg (Filename parsed))
                (new_path cfg en (mark_submission lib cfg en (Atoi et) parsed))) = None \<longrightarrow>
       process_rows env lib cfg learn_files st ((uun # en # given # family # et # rest) # records)
         = Inl (Panic ErrPermission))
  \<and> (move_outcome env (disk st) (learn_path cfg (Filename parsed))
                (new_path cfg en (mark_submission lib cfg en (Atoi et) parsed)) = Inr status
       \<and> status \<noteq> ''Done Nothing''
       \<and> fst (Remove env
             (disk_after_move env (disk st) (learn_path cfg (Filename parsed))
                (new_path cfg en (mark_submission lib cfg en (Atoi et) parsed)))
             (learn_path cfg learn_file)) = Some e \<longrightarrow>
       process_rows env lib cfg learn_files st ((uun # en # given # family # et # rest) # records)
         = Inl (Panic e))
  \<and> (names (disk st) (learn_path cfg (Filename parsed)) \<noteq> None
       \<and> \<not> target_newer (disk st) (learn_path cfg (Filename parsed))
                (new_path cfg en (mark_submission lib cfg en (Atoi et) parsed))
       \<and> fst (CopyFile env (disk st) (learn_path cfg (Filename parsed))
                (new_path cfg en (mark_submission lib cfg en (Atoi et) parsed))) \<noteq> None \<longrightarrow>
       process_rows env lib cfg learn_files st ((uun # en # given # family # et # rest) # records)
         = process_rows env lib cfg learn_files
             (st\<lparr>examno := (examno st)(uun \<mapsto> en),
                 disk := snd (CopyFile env (disk st) (learn_path cfg (Filename parsed))
                               (new_path cfg en (mark_submission lib cfg en (Atoi et) parsed))),
                 submissions := submissions st @
                   [(mark_submission lib cfg en (Atoi et) parsed)\<lparr>OutputFile := ''Done Nothing''\<rparr>]\<rparr>)
             records)"
proof -
  let ?st1 = "st\<lparr>examno := (examno st)(uun \<mapsto> en)\<rparr>"
  let ?sub = "mark_submission lib cfg en (Atoi et) parsed"
  let ?src = "learn_path cfg (Filename parsed)"
  let ?dst = "new_path cfg en ?sub"
  let ?receipt = "learn_path cfg learn_file"
  let ?row = "uun # en # given # family # et # rest"
  have row: "process_row env lib cfg learn_files st ?row =
     (case moveFile env (disk st) ?src ?dst of
        Inl a \<Rightarrow> Inl a
      | Inr (filemovestatus, fs1) \<Rightarrow>
          (case (if Contains filemovestatus ''File''
                 then removeFile env fs1 ?receipt else Inr fs1) of
             Inl a \<Rightarrow> Inl a
           | Inr fs2 \<Rightarrow>
               Inr (?st1\<lparr>disk := fs2,
                       submissions := submissions ?st1 @ [?sub\<lparr>OutputFile := filemovestatus\<rparr>]\<rparr>)))"
    using assms by (simp add: process_row_learn learn_branch_move [where parsed = parsed])
  have one: "process_rows env lib cfg learn_files st (?row # records) = Inl (Panic ErrNotExist)"
    if "names (disk st) ?src = None"
    using that by (simp add: row moveFile_missing_source)
  have two: "process_rows env lib cfg learn_files st (?row # records) = Inl (Panic ErrPermission)"
    if "names (disk st) ?src \<noteq> None \<and> remove_fails env ?src \<and> fst (CopyFile env (disk st) ?src ?dst) = None"
  proof -
    from that obtain si where "names (disk st) ?src = Some si" by auto
    from moveFile_remove_fails [OF this] that
    have "moveFile env (disk st) ?src ?dst = Inl (Panic ErrPermission)" by blast
    then show ?thesis by (simp add: row)
  qed
  have three: "process_rows env lib cfg learn_files st (?row # records) = Inl (Panic e)"
    if h: "move_outcome env (disk st) ?src ?dst = Inr status \<and> status \<noteq> ''Done Nothing''
        \<and> fst (Remove env (disk_after_move env (disk st) ?src ?dst) ?receipt) = Some e"
  proof -
    from h move_outcome_Inr obtain fs1 where m: "moveFile env (disk st) ?src ?dst = Inr (status, fs1)"
      by blast
    from moveFile_status [OF m] h have "status \<in> {''File already exists'', ''File replaced'', ''File created''}"
      by auto
    then have c: "Contains status ''File''" by (rule Contains_File)
    from h have "fst (Remove env fs1 ?receipt) = Some e"
      by (simp add: disk_after_move_Inr [OF m])
    then have "removeFile env fs1 ?receipt = Inl (Panic e)"
      by (simp add: removeFile_Remove)
    with m c show ?thesis by (simp add: row)
  qed
  have four: "process_rows env lib cfg learn_files st (?row # records)
         = process_rows env lib cfg learn_files
             (st\<lparr>examno := (examno st)(uun \<mapsto> en),
                 disk := snd (CopyFile env (disk st) ?src ?dst),
                 submissions := submissions st @ [?sub\<lparr>OutputFile := ''Done Nothing''\<rparr>]\<rparr>)
             records"
    if h: "names (disk st) ?src \<noteq> None \<and> \<not> target_newer (disk st) ?src ?dst
        \<and> fst (CopyFile env (disk st) ?src ?dst) \<noteq> None"
  proof -
    from h obtain si where s: "names (disk st) ?src = Some si" by auto
    from h obtain e fs1 where c: "CopyFile env (disk st) ?src ?dst = (Some e, fs1)"
      by (cases "CopyFile env (disk st) ?src ?dst") auto
    from h have "\<not> (\<exists>t. mod_time (disk st) ?dst = Some t \<and> After t (mtime (nodes (disk st) si)))"
      by (simp add: target_newer_iff [OF s])
    from moveFile_copy_fails [OF s c this]
    have "moveFile env (disk st) ?src ?dst = Inr (''Done Nothing'', fs1)" .
    with c show ?thesis by (simp add: row HasPrefix_def)
  qed
  from one two three four show ?thesis by blast
qed

text \<open>
  The first student of the small course in four folders: the script lost, the Learn
  folder read-only, the receipts locked, and the output folder not writable. The second
  student follows in the class list.
\<close>

theorem C6_failures_in_a_row_witness:
  "(course_index ''S1111111'' = Some ''x_s1111111_attempt_1.txt''
    \<and> ParseLearnReceipt course_lib (disk (initial_state course_disk_lost)) (learn_path course_cfg ''x_s1111111_attempt_1.txt'')
        = ((receipt_of ''s1111111'' ''2020-04-22-15-59-00''), None)
    \<and> NumberOfFiles (receipt_of ''s1111111'' ''2020-04-22-15-59-00'') = 1
    \<and> FiletypeError (receipt_of ''s1111111'' ''2020-04-22-15-59-00'') = []
    \<and> names (disk (initial_state course_disk_lost)) (learn_path course_cfg (Filename (receipt_of ''s1111111'' ''2020-04-22-15-59-00''))) = None
    \<and> process_rows calm course_lib course_cfg course_index (initial_state course_disk_lost)
          ([''S1111111'', ''B001'', ''Ann'', ''Lee'', ''0''] # [[''S2222222'', ''B002'', ''Bob'', ''Ray'', ''10'']]) = Inl (Panic ErrNotExist))
   \<and> (course_index ''S1111111'' = Some ''x_s1111111_attempt_1.txt''
    \<and> ParseLearnReceipt course_lib (disk (initial_state course_disk)) (learn_path course_cfg ''x_s1111111_attempt_1.txt'')
        = ((receipt_of ''s1111111'' ''2020-04-22-15-59-00''), None)
    \<and> NumberOfFiles (receipt_of ''s1111111'' ''2020-04-22-15-59-00'') = 1
    \<and> FiletypeError (receipt_of ''s1111111'' ''2020-04-22-15-59-00'') = []
    \<and> names (disk (initial_state course_disk)) (learn_path course_cfg (Filename (receipt_of ''s1111111'' ''2020-04-22-15-59-00''))) \<noteq> None
    \<and> remove_fails read_only (learn_path course_cfg (Filename (receipt_of ''s1111111'' ''2020-04-22-15-59-00'')))
    \<and> fst (CopyFile read_only (disk (initial_state course_disk)) (learn_path course_cfg (Filename (receipt_of ''s1111111'' ''2020-04-22-15-59-00'')))
          (new_path course_cfg ''B001'' (mark_submission course_lib course_cfg ''B001'' (Atoi ''0'') (receipt_of ''s1111111'' ''2020-04-22-15-59-00'')))) = None
    \<and> process_rows read_only course_lib course_cfg course_index (initial_state course_disk)
          ([''S1111111'', ''B001'', ''Ann'', ''Lee'', ''0''] # [[''S2222222'', ''B002'', ''Bob'', ''Ray'', ''10'']]) = Inl (Panic ErrPermission))
   \<and> (move_outcome receipts_locked (disk (initial_state course_disk)) (learn_path course_cfg (Filename (receipt_of ''s1111111'' ''2020-04-22-15-59-00'')))
          (new_path course_cfg ''B001'' (mark_submission course_lib course_cfg ''B001'' (Atoi ''0'') (receipt_of ''s1111111'' ''2020-04-22-15-59-00''))) = Inr ''File created''
    \<and> ''File created'' \<noteq> ''Done Nothing''
    \<and> fst (Remove receipts_locked
          (disk_after_move receipts_locked (disk (initial_state course_disk)) (learn_path course_cfg (Filename (receipt_of ''s1111111'' ''2020-04-22-15-59-00'')))
             (new_path course_cfg ''B001'' (mark_submission course_lib course_cfg ''B001'' (Atoi ''0'') (receipt_of ''s1111111'' ''2020-04-22-15-59-00''))))
          (learn_path course_cfg ''x_s1111111_attempt_1.txt'')) = Some ErrPermission
    \<and> process_rows receipts_locked course_lib course_cfg course_index (initial_state course_disk)
          ([''S1111111'', ''B001'', ''Ann'', ''Lee'', ''0''] # [[''S2222222'', ''B002'', ''Bob'', ''Ray'', ''10'']]) = Inl (Panic ErrPermission))
   \<and> (\<not> target_newer (disk (initial_state course_disk)) (learn_path course_cfg (Filename (receipt_of ''s1111111'' ''2020-04-22-15-59-00'')))
          (new_path course_cfg ''B001'' (mark_submission course_lib course_cfg ''B001'' (Atoi ''0'') (receipt_of ''s1111111'' ''2020-04-22-15-59-00'')))
    \<and> fst (CopyFile no_write (disk (initial_state course_disk)) (learn_path course_cfg (Filename (receipt_of ''s1111111'' ''2020-04-22-15-59-00'')))
          (new_path course_cfg ''B001'' (mark_submission course_lib course_cfg ''B001'' (Atoi ''0'') (receipt_of ''s1111111'' ''2020-04-22-15-59-00'')))) \<noteq> None
    \<and> process_rows no_write course_lib course_cfg course_index (initial_state course_disk)
          ([''S1111111'', ''B001'', ''Ann'', ''Lee'', ''0''] # [[''S2222222'', ''B002'', ''Bob'', ''Ray'', ''10'']])
        = process_rows no_write course_lib course_cfg course_index
            ((initial_state course_disk)
               \<lparr>examno := (examno (initial_state course_disk))(''S1111111'' \<mapsto> ''B001''),
                disk := snd (CopyFile no_write (disk (initial_state course_disk)) (learn_path course_cfg (Filename (receipt_of ''s1111111'' ''2020-04-22-15-59-00'')))
                   (new_path course_cfg ''B001'' (mark_submission course_lib course_cfg ''B001'' (Atoi ''0'') (receipt_of ''s1111111'' ''2020-04-22-15-59-00'')))),
                submissions := submissions (initial_state course_disk) @
                  [(mark_submission course_lib course_cfg ''B001'' (Atoi ''0'') (receipt_of ''s1111111'' ''2020-04-22-15-59-00''))
                     \<lparr>OutputFile := ''Done Nothing''\<rparr>]\<rparr>)
            [[''S2222222'', ''B002'', ''Bob'', ''Ray'', ''10'']])"
proof -
  let ?parsed = "receipt_of ''s1111111'' ''2020-04-22-15-59-00''"
  let ?src = "learn_path course_cfg (Filename ?parsed)"
  let ?dst = "new_path course_cfg ''B001'' (mark_submission course_lib course_cfg ''B001'' (Atoi ''0'') ?parsed)"
  let ?receipt = "learn_path course_cfg ''x_s1111111_attempt_1.txt''"
  have h1: "course_index ''S1111111'' = Some ''x_s1111111_attempt_1.txt''" by code_simp
  have h2: "ParseLearnReceipt course_lib (disk (initial_state course_disk)) ?receipt = (?parsed, None)"
    by code_simp
  have h2': "ParseLearnReceipt course_lib (disk (initial_state course_disk_lost)) ?receipt = (?parsed, None)"
    by code_simp
  have h3: "NumberOfFiles ?parsed = 1" by code_simp
  have h4: "FiletypeError ?parsed = []" by code_simp
  have a: "names (disk (initial_state course_disk_lost)) ?src = None" by code_simp
  have b: "names (disk (initial_state course_disk)) ?src \<noteq> None
      \<and> remove_fails read_only ?src
      \<and> fst (CopyFile read_only (disk (initial_state course_disk)) ?src ?dst) = None" by code_simp
  have c: "move_outcome receipts_locked (disk (initial_state course_disk)) ?src ?dst = Inr ''File created''
      \<and> ''File created'' \<noteq> ''Done Nothing''
      \<and> fst (Remove receipts_locked
            (disk_after_move receipts_locked (disk (initial_state course_disk)) ?src ?dst) ?receipt)
          = Some ErrPermission" by code_simp
  have d: "names (disk (initial_state course_disk)) ?src \<noteq> None
      \<and> \<not> target_newer (disk (initial_state course_disk)) ?src ?dst
      \<and> fst (CopyFile no_write (disk (initial_state course_disk)) ?src ?dst) \<noteq> None" by code_simp
  note lost = C6_failures_in_a_row [where learn_files = course_index and uun = "''S1111111''"
      and given = "''Ann''" and family = "''Lee''" and rest = "[]"
      and records = "[[''S2222222'', ''B002'', ''Bob'', ''Ray'', ''10'']]", OF h1 h2' h3 h4]
  note kept = C6_failures_in_a_row [where learn_files = course_index and uun = "''S1111111''"
      and given = "''Ann''" and family = "''Lee''" and rest = "[]"
      and records = "[[''S2222222'', ''B002'', ''Bob'', ''Ray'', ''10'']]", OF h1 h2 h3 h4]
  from lost [of calm "''B001''" "''0''"] a
  have ra: "process_rows calm course_lib course_cfg course_index (initial_state course_disk_lost)
          ([''S1111111'', ''B001'', ''Ann'', ''Lee'', ''0''] # [[''S2222222'', ''B002'', ''Bob'', ''Ray'', ''10'']]) = Inl (Panic ErrNotExist)"
    by blast
  from kept [of read_only "''B001''" "''0''"] b
  have rb: "process_rows read_only course_lib course_cfg course_index (initial_state course_disk)
          ([''S1111111'', ''B001'', ''Ann'', ''Lee'', ''0''] # [[''S2222222'', ''B002'', ''Bob'', ''Ray'', ''10'']]) = Inl (Panic ErrPermission)"
    by blast
  from kept [of receipts_locked "''B001''" "''0''" "''File created''" ErrPermission] c
  have rc: "process_rows receipts_locked course_lib course_cfg course_index (initial_state course_disk)
          ([''S1111111'', ''B001'', ''Ann'', ''Lee'', ''0''] # [[''S2222222'', ''B002'', ''Bob'', ''Ray'', ''10'']]) = Inl (Panic ErrPermission)"
    by blast
  from kept [of no_write "''B001''" "''0''"] d
  have rd: "process_rows no_write course_lib course_cfg course_index (initial_state course_disk)
          ([''S1111111'', ''B001'', ''Ann'', ''Lee'', ''0''] # [[''S2222222'', ''B002'', ''Bob'', ''Ray'', ''10'']])
        = process_rows no_write course_lib course_cfg course_index
            ((initial_state course_disk)
               \<lparr>examno := (examno (initial_state course_disk))(''S1111111'' \<mapsto> ''B001''),
                disk := snd (CopyFile no_write (disk (initial_state course_disk)) ?src ?dst),
                submissions := submissions (initial_state course_disk) @
                  [(mark_submission course_lib course_cfg ''B001'' (Atoi ''0'') ?parsed)
                     \<lparr>OutputFile := ''Done Nothing''\<rparr>]\<rparr>)
            [[''S2222222'', ''B002'', ''Bob'', ''Ray'', ''10'']]"
    by blast
  from h1 h2 h2' h3 h4 a b c d ra rb rc rd show ?thesis by blast
qed

text \<open>
  C6 as stated fails: the script of the first student is missing, \<open>moveFile\<close> panics,
  and the run ends without a report; the second student, whose row alone is processed
  and recorded, is never reached.
\<close>

theorem C6_missing_script_counterexample:
  "reports (ingest calm course_lib course_cfg course_walk pair course_disk_lost)
     = Inl (Panic ErrNotExist)
   \<and> reports (ingest calm course_lib course_cfg course_walk
        [[''S2222222'', ''B002'', ''Bob'', ''Ray'', ''10'']] course_disk_lost)
     = Inr ([recorded (receipt_of ''s2222222'' ''2020-04-22-16-05-00'') ''B002'' 10 [] ''File created''],
            [])"
  by code_simp

subsection \<open>C8: the receipt first, the file named after the UUN last\<close>

text \<open>
  C8. For every row of the class list, with \<open>uun.pdf\<close> for the file in the Learn
  folder named after the UUN in lower case:
  (1) when the UUN is in the index of receipts, the receipt parses and declares one file
  without a filetype error, and the move and the removals do not fail, the row ends
  without a panic, the submission of the receipt is appended to the successes, the
  target \<open>new_path\<close> holds the bytes of the script the receipt names (or keeps its own
  when it is newer), script and receipt are gone, and \<open>uun.pdf\<close> is as it was;
  (2) whatever the receipt leads to, \<open>uun.pdf\<close>, when it exists and is neither the
  receipt nor the script, is still there when the row ends;
  (3) when the UUN is not in the index and \<open>uun.pdf\<close> is missing, nothing is moved or
  recorded;
  (4) when the UUN is not in the index and \<open>uun.pdf\<close> exists, and the move and the
  removal do not fail, the row ends without a panic, \<open>outputDir/examNumber.pdf\<close> holds
  the bytes of \<open>uun.pdf\<close> (or keeps its own when it is newer), \<open>uun.pdf\<close> is gone,
  the recorded submission has an empty late mark, and
  \<open>outputDir/LATE-examNumber.pdf\<close> is as it was.
\<close>

theorem C8_receipt_before_fallback:
  "(learn_files uun = Some learn_file
      \<and> ParseLearnReceipt lib (disk st) (learn_path cfg learn_file) = (parsed, None)
      \<and> NumberOfFiles parsed = 1 \<and> FiletypeError parsed = []
      \<and> names (disk st) (learn_path cfg (Filename parsed)) \<noteq> None
      \<and> \<not> remove_fails env (learn_path cfg (Filename parsed))
      \<and> \<not> remove_fails env (learn_path cfg learn_file)
      \<and> (target_newer (disk st) (learn_path cfg (Filename parsed))
             (new_path cfg en (mark_submission lib cfg en (Atoi et) parsed))
           \<or> fst (CopyFile env (disk st) (learn_path cfg (Filename parsed))
                 (new_path cfg en (mark_submission lib cfg en (Atoi et) parsed))) = None)
      \<and> learn_path cfg (Filename parsed) \<noteq> new_path cfg en (mark_submission lib cfg en (Atoi et) parsed)
      \<and> learn_path cfg learn_file \<noteq> learn_path cfg (Filename parsed)
      \<and> learn_path cfg learn_file \<noteq> new_path cfg en (mark_submission lib cfg en (Atoi et) parsed)
      \<and> learn_path cfg (ToLower lib uun @ ''.pdf'') \<noteq> learn_path cfg (Filename parsed)
      \<and> learn_path cfg (ToLower lib uun @ ''.pdf'') \<noteq> learn_path cfg learn_file
      \<and> learn_path cfg (ToLower lib uun @ ''.pdf'')
           \<noteq> new_path cfg en (mark_submission lib cfg en (Atoi et) parsed)
    \<longrightarrow> (\<exists>st'. process_row env lib cfg learn_files st (uun # en # given # family # et # rest) = Inr st'
          \<and> submissions st' = submissions st @
               [(mark_submission lib cfg en (Atoi et) parsed)
                  \<lparr>OutputFile :=
                     if target_newer (disk st) (learn_path cfg (Filename parsed))
                          (new_path cfg en (mark_submission lib cfg en (Atoi et) parsed))
                     then ''File already exists''
                     else if names (disk st)
                               (new_path cfg en (mark_submission lib cfg en (Atoi et) parsed)) = None
                     then ''File created'' else ''File replaced''\<rparr>]
          \<and> bad_submissions st' = bad_submissions st
          \<and> read_file (disk st') (new_path cfg en (mark_submission lib cfg en (Atoi et) parsed))
              = (if target_newer (disk st) (learn_path cfg (Filename parsed))
                      (new_path cfg en (mark_submission lib cfg en (Atoi et) parsed))
                 then read_file (disk st) (new_path cfg en (mark_submission lib cfg en (Atoi et) parsed))
                 else read_file (disk st) (learn_path cfg (Filename parsed)))
          \<and> names (disk st') (learn_path cfg (Filename parsed)) = None
          \<and> names (disk st') (learn_path cfg learn_file) = None
          \<and> names (disk st') (learn_path cfg (ToLower lib uun @ ''.pdf''))
              = names (disk st) (learn_path cfg (ToLower lib uun @ ''.pdf''))))
   \<and> (learn_files uun = Some learn_file
      \<and> names (disk st) (learn_path cfg (ToLower lib uun @ ''.pdf'')) = Some i
      \<and> learn_path cfg (ToLower lib uun @ ''.pdf'') \<noteq> learn_path cfg learn_file
      \<and> learn_path cfg (ToLower lib uun @ ''.pdf'') \<noteq>
           learn_path cfg (Filename (fst (ParseLearnReceipt lib (disk st) (learn_path cfg learn_file))))
    \<longrightarrow> (case process_row env lib cfg learn_files st (uun # en # given # family # et # rest) of
           Inl a \<Rightarrow> True
         | Inr st' \<Rightarrow> names (disk st') (learn_path cfg (ToLower lib uun @ ''.pdf'')) = Some i))
   \<and> (learn_files uun = None \<and> names (disk st) (learn_path cfg (ToLower lib uun @ ''.pdf'')) = None
    \<longrightarrow> process_row env lib cfg learn_files st (uun # en # given # family # et # rest)
          = Inr (st\<lparr>examno := (examno st)(uun \<mapsto> en)\<rparr>))
   \<and> (learn_files uun = None
      \<and> names (disk st) (learn_path cfg (ToLower lib uun @ ''.pdf'')) \<noteq> None
      \<and> \<not> remove_fails env (learn_path cfg (ToLower lib uun @ ''.pdf''))
      \<and> (target_newer (disk st) (learn_path cfg (ToLower lib uun @ ''.pdf'')) (plain_path cfg en)
           \<or> fst (CopyFile env (disk st) (learn_path cfg (ToLower lib uun @ ''.pdf''))
                 (plain_path cfg en)) = None)
      \<and> learn_path cfg (ToLower lib uun @ ''.pdf'') \<noteq> plain_path cfg en
      \<and> learn_path cfg (ToLower lib uun @ ''.pdf'') \<noteq> late_path cfg en
    \<longrightarrow> (\<exists>st'. process_row env lib cfg learn_files st (uun # en # given # family # et # rest) = Inr st'
          \<and> submissions st' = submissions st @
               [zero_submission
                  \<lparr>UUN := uun, ExamNumber := en,
                   OutputFile :=
                     if target_newer (disk st) (learn_path cfg (ToLower lib uun @ ''.pdf''))
                          (plain_path cfg en)
                     then ''File already exists''
                     else if names (disk st) (plain_path cfg en) = None
                     then ''File created'' else ''File replaced''\<rparr>]
          \<and> LateSubmission (last (submissions st')) = []
          \<and> bad_submissions st' = bad_submissions st
          \<and> read_file (disk st') (plain_path cfg en)
              = (if target_newer (disk st) (learn_path cfg (ToLower lib uun @ ''.pdf''))
                      (plain_path cfg en)
                 then read_file (disk st) (plain_path cfg en)
                 else read_file (disk st) (learn_path cfg (ToLower lib uun @ ''.pdf'')))
          \<and> names (disk st') (learn_path cfg (ToLower lib uun @ ''.pdf'')) = None
          \<and> names (disk st') (late_path cfg en) = names (disk st) (late_path cfg en)))"
proof (intro conjI impI)
  let ?row = "uun # en # given # family # et # rest"
  let ?st1 = "st\<lparr>examno := (examno st)(uun \<mapsto> en)\<rparr>"
  let ?fb = "learn_path cfg (ToLower lib uun @ ''.pdf'')"
  {
    let ?sub = "mark_submission lib cfg en (Atoi et) parsed"
    let ?src = "learn_path cfg (Filename parsed)"
    let ?dst = "new_path cfg en ?sub"
    let ?receipt = "learn_path cfg learn_file"
    let ?status = "if target_newer (disk st) ?src ?dst then ''File already exists''
                   else if names (disk st) ?dst = None then ''File created'' else ''File replaced''"
    assume a: "learn_files uun = Some learn_file
      \<and> ParseLearnReceipt lib (disk st) ?receipt = (parsed, None)
      \<and> NumberOfFiles parsed = 1 \<and> FiletypeError parsed = []
      \<and> names (disk st) ?src \<noteq> None
      \<and> \<not> remove_fails env ?src
      \<and> \<not> remove_fails env ?receipt
      \<and> (target_newer (disk st) ?src ?dst \<or> fst (CopyFile env (disk st) ?src ?dst) = None)
      \<and> ?src \<noteq> ?dst \<and> ?receipt \<noteq> ?src \<and> ?receipt \<noteq> ?dst
      \<and> ?fb \<noteq> ?src \<and> ?fb \<noteq> ?receipt \<and> ?fb \<noteq> ?dst"
    then have p: "ParseLearnReceipt lib (disk st) ?receipt = (parsed, None)"
      and n: "NumberOfFiles parsed = 1" "FiletypeError parsed = []" by auto
    from a moveFile_placed [of "disk st" ?src env ?dst] obtain fs1 where
      m: "moveFile env (disk st) ?src ?dst = Inr (?status, fs1)"
      and b: "read_file fs1 ?dst = (if target_newer (disk st) ?src ?dst
                                    then read_file (disk st) ?dst else read_file (disk st) ?src)"
      and g: "names fs1 ?src = None"
      and f: "\<forall>p. p \<noteq> ?src \<longrightarrow> p \<noteq> ?dst \<longrightarrow> names fs1 p = names (disk st) p"
      and k: "\<forall>p i. p \<noteq> ?src \<longrightarrow> names (disk st) p = Some i \<longrightarrow> names fs1 p = Some i"
      by blast
    have c: "Contains ?status ''File''" by (simp add: HasPrefix_def)
    from ParseLearnReceipt_exists [OF p] obtain ri
      where "names (disk st) ?receipt = Some ri" by blast
    with k a have "names fs1 ?receipt = Some ri" by blast
    from Remove_ok [OF this] a
    have r: "removeFile env fs1 ?receipt = Inr (fs1\<lparr>names := (names fs1)(?receipt := None)\<rparr>)"
      by blast
    have "learn_branch env lib cfg ?st1 learn_file en (Atoi et) =
        Inr (?st1\<lparr>disk := fs1\<lparr>names := (names fs1)(?receipt := None)\<rparr>,
                  submissions := submissions ?st1 @ [?sub\<lparr>OutputFile := ?status\<rparr>]\<rparr>)"
      using p n m c r
      by (simp only: learn_branch_move [where parsed = parsed and st = ?st1, simplified, OF p n]
          sum.case prod.case if_True)
    moreover from a f have "names fs1 ?fb = names (disk st) ?fb" by blast
    moreover from a have "?dst \<noteq> ?receipt" "?src \<noteq> ?receipt" "?fb \<noteq> ?receipt" by auto
    ultimately show "\<exists>st'. process_row env lib cfg learn_files st ?row = Inr st'
          \<and> submissions st' = submissions st @ [?sub\<lparr>OutputFile := ?status\<rparr>]
          \<and> bad_submissions st' = bad_submissions st
          \<and> read_file (disk st') ?dst
              = (if target_newer (disk st) ?src ?dst
                 then read_file (disk st) ?dst else read_file (disk st) ?src)
          \<and> names (disk st') ?src = None
          \<and> names (disk st') ?receipt = None
          \<and> names (disk st') ?fb = names (disk st) ?fb"
      using a b g by (simp add: process_row_learn read_file_removed)
  }
  {
    assume a: "learn_files uun = Some learn_file
      \<and> names (disk st) ?fb = Some i
      \<and> ?fb \<noteq> learn_path cfg learn_file
      \<and> ?fb \<noteq> learn_path cfg (Filename (fst (ParseLearnReceipt lib (disk st) (learn_path cfg learn_file))))"
    have "names (disk st') ?fb = Some i"
      if "learn_branch env lib cfg ?st1 learn_file en (Atoi et) = Inr st'" for st'
      using learn_branch_keeps [OF that, of ?fb i] a by simp
    then show "case process_row env lib cfg learn_files st ?row of
                 Inl a \<Rightarrow> True | Inr st' \<Rightarrow> names (disk st') ?fb = Some i"
      using a by (simp add: process_row_learn split: sum.splits)
  }
  {
    assume "learn_files uun = None \<and> names (disk st) ?fb = None"
    then show "process_row env lib cfg learn_files st ?row = Inr ?st1"
      by (simp add: process_row_manual manual_branch_absent)
  }
  {
    let ?dst = "plain_path cfg en"
    let ?status = "if target_newer (disk st) ?fb ?dst then ''File already exists''
                   else if names (disk st) ?dst = None then ''File created'' else ''File replaced''"
    assume a: "learn_files uun = None
      \<and> names (disk st) ?fb \<noteq> None
      \<and> \<not> remove_fails env ?fb
      \<and> (target_newer (disk st) ?fb ?dst \<or> fst (CopyFile env (disk st) ?fb ?dst) = None)
      \<and> ?fb \<noteq> ?dst \<and> ?fb \<noteq> late_path cfg en"
    from a moveFile_placed [of "disk st" ?fb env ?dst] obtain fs1 where
      m: "moveFile env (disk st) ?fb ?dst = Inr (?status, fs1)"
      and b: "read_file fs1 ?dst = (if target_newer (disk st) ?fb ?dst
                                    then read_file (disk st) ?dst else read_file (disk st) ?fb)"
      and g: "names fs1 ?fb = None"
      and f: "\<forall>p. p \<noteq> ?fb \<longrightarrow> p \<noteq> ?dst \<longrightarrow> names fs1 p = names (disk st) p"
      by blast
    from a f late_path_not_plain [of cfg en]
    have l: "names fs1 (late_path cfg en) = names (disk st) (late_path cfg en)" by metis
    have "manual_branch env lib cfg ?st1 uun en =
        Inr (?st1\<lparr>disk := fs1,
                  submissions := submissions ?st1 @
                    [zero_submission\<lparr>UUN := uun, ExamNumber := en, OutputFile := ?status\<rparr>]\<rparr>)"
      using a m by (simp add: manual_branch_present)
    then show "\<exists>st'. process_row env lib cfg learn_files st ?row = Inr st'
          \<and> submissions st' = submissions st @
               [zero_submission\<lparr>UUN := uun, ExamNumber := en, OutputFile := ?status\<rparr>]
          \<and> LateSubmission (last (submissions st')) = []
          \<and> bad_submissions st' = bad_submissions st
          \<and> read_file (disk st') ?dst
              = (if target_newer (disk st) ?fb ?dst
                 then read_file (disk st) ?dst else read_file (disk st) ?fb)
          \<and> names (disk st') ?fb = None
          \<and> names (disk st') (late_path cfg en) = names (disk st) (late_path cfg en)"
      using a b g l by (simp add: process_row_manual zero_submission_def)
  }
qed
text \<open>
  The second student has a receipt and a file \<open>s2222222.pdf\<close>: the script named by the
  receipt is placed and the file stays, also when the copy fails. The fifth student has
  neither. The fourth has only \<open>s4444444.pdf\<close>, which is placed at \<open>O/B004.pdf\<close>.
\<close>

theorem C8_receipt_before_fallback_witness:
  "(course_index ''S2222222'' = Some ''x_s2222222_attempt_1.txt''
      \<and> ParseLearnReceipt course_lib (disk (initial_state course_disk)) (learn_path course_cfg ''x_s2222222_attempt_1.txt'') = ((receipt_of ''s2222222'' ''2020-04-22-16-05-00''), None)
      \<and> NumberOfFiles (receipt_of ''s2222222'' ''2020-04-22-16-05-00'') = 1 \<and> FiletypeError (receipt_of ''s2222222'' ''2020-04-22-16-05-00'') = []
      \<and> names (disk (initial_state course_disk)) (learn_path course_cfg (Filename (receipt_of ''s2222222'' ''2020-04-22-16-05-00''))) \<noteq> None
      \<and> \<not> remove_fails calm (learn_path course_cfg (Filename (receipt_of ''s2222222'' ''2020-04-22-16-05-00'')))
      \<and> \<not> remove_fails calm (learn_path course_cfg ''x_s2222222_attempt_1.txt'')
      \<and> fst (CopyFile calm (disk (initial_state course_disk)) (learn_path course_cfg (Filename (receipt_of ''s2222222'' ''2020-04-22-16-05-00'')))
            (new_path course_cfg ''B002'' (mark_submission course_lib course_cfg ''B002'' (Atoi ''10'') (receipt_of ''s2222222'' ''2020-04-22-16-05-00'')))) = None
      \<and> (learn_path course_cfg (Filename (receipt_of ''s2222222'' ''2020-04-22-16-05-00''))) \<noteq> (new_path course_cfg ''B002'' (mark_submission course_lib course_cfg ''B002'' (Atoi ''10'') (receipt_of ''s2222222'' ''2020-04-22-16-05-00'')))
      \<and> (learn_path course_cfg ''x_s2222222_attempt_1.txt'') \<noteq> (learn_path course_cfg (Filename (receipt_of ''s2222222'' ''2020-04-22-16-05-00'')))
      \<and> (learn_path course_cfg ''x_s2222222_attempt_1.txt'') \<noteq> (new_path course_cfg ''B002'' (mark_submission course_lib course_cfg ''B002'' (Atoi ''10'') (receipt_of ''s2222222'' ''2020-04-22-16-05-00'')))
      \<and> (learn_path course_cfg (ToLower course_lib ''S2222222'' @ ''.pdf'')) \<noteq> (learn_path course_cfg (Filename (receipt_of ''s2222222'' ''2020-04-22-16-05-00'')))
      \<and> (learn_path course_cfg (ToLower course_lib ''S2222222'' @ ''.pdf'')) \<noteq> (learn_path course_cfg ''x_s2222222_attempt_1.txt'')
      \<and> (learn_path course_cfg (ToLower course_lib ''S2222222'' @ ''.pdf'')) \<noteq> (new_path course_cfg ''B002'' (mark_submission course_lib course_cfg ''B002'' (Atoi ''10'') (receipt_of ''s2222222'' ''2020-04-22-16-05-00'')))
      \<and> (\<exists>st'. process_row calm course_lib course_cfg course_index (initial_state course_disk) [''S2222222'', ''B002'', ''Bob'', ''Ray'', ''10''] = Inr st'
          \<and> submissions st' = submissions (initial_state course_disk) @
               [(mark_submission course_lib course_cfg ''B002'' (Atoi ''10'') (receipt_of ''s2222222'' ''2020-04-22-16-05-00''))
                  \<lparr>OutputFile := ''File created''\<rparr>]
          \<and> bad_submissions st' = bad_submissions (initial_state course_disk)
          \<and> read_file (disk st') (new_path course_cfg ''B002'' (mark_submission course_lib course_cfg ''B002'' (Atoi ''10'') (receipt_of ''s2222222'' ''2020-04-22-16-05-00''))) = Some ''P2''
          \<and> names (disk st') (learn_path course_cfg (Filename (receipt_of ''s2222222'' ''2020-04-22-16-05-00''))) = None
          \<and> names (disk st') (learn_path course_cfg ''x_s2222222_attempt_1.txt'') = None
          \<and> names (disk st') (learn_path course_cfg (ToLower course_lib ''S2222222'' @ ''.pdf'')) = Some 8))
   \<and> (course_index ''S2222222'' = Some ''x_s2222222_attempt_1.txt''
      \<and> names (disk (initial_state course_disk)) (learn_path course_cfg (ToLower course_lib ''S2222222'' @ ''.pdf'')) = Some 8
      \<and> (learn_path course_cfg (ToLower course_lib ''S2222222'' @ ''.pdf'')) \<noteq> (learn_path course_cfg ''x_s2222222_attempt_1.txt'')
      \<and> (learn_path course_cfg (ToLower course_lib ''S2222222'' @ ''.pdf'')) \<noteq>
           learn_path course_cfg (Filename (fst (ParseLearnReceipt course_lib (disk (initial_state course_disk)) (learn_path course_cfg ''x_s2222222_attempt_1.txt''))))
      \<and> (case process_row no_write course_lib course_cfg course_index (initial_state course_disk) [''S2222222'', ''B002'', ''Bob'', ''Ray'', ''10''] of
           Inl a \<Rightarrow> True
         | Inr st' \<Rightarrow> names (disk st') (learn_path course_cfg (ToLower course_lib ''S2222222'' @ ''.pdf'')) = Some 8))
   \<and> (course_index ''S5555555'' = None \<and> names (disk (initial_state course_disk)) (learn_path course_cfg (ToLower course_lib ''S5555555'' @ ''.pdf'')) = None
      \<and> process_row calm course_lib course_cfg course_index (initial_state course_disk) [''S5555555'', ''B005'', ''Eve'', ''Orr'', []]
          = Inr ((initial_state course_disk)\<lparr>examno := (examno (initial_state course_disk))(''S5555555'' \<mapsto> ''B005'')\<rparr>))
   \<and> (course_index ''S4444444'' = None
      \<and> names (disk (initial_state course_disk)) (learn_path course_cfg (ToLower course_lib ''S4444444'' @ ''.pdf'')) \<noteq> None
      \<and> \<not> remove_fails calm (learn_path course_cfg (ToLower course_lib ''S4444444'' @ ''.pdf''))
      \<and> fst (CopyFile calm (disk (initial_state course_disk)) (learn_path course_cfg (ToLower course_lib ''S4444444'' @ ''.pdf'')) (plain_path course_cfg ''B004'')) = None
      \<and> (learn_path course_cfg (ToLower course_lib ''S4444444'' @ ''.pdf'')) \<noteq> (plain_path course_cfg ''B004'')
      \<and> (learn_path course_cfg (ToLower course_lib ''S4444444'' @ ''.pdf'')) \<noteq> (late_path course_cfg ''B004'')
      \<and> (plain_path course_cfg ''B004'') = ''O/B004.pdf''
      \<and> (\<exists>st'. process_row calm course_lib course_cfg course_index (initial_state course_disk) [''S4444444'', ''B004'', ''Dee'', ''Kay'', ''5''] = Inr st'
          \<and> submissions st' = submissions (initial_state course_disk) @
               [zero_submission
                  \<lparr>UUN := ''S4444444'', ExamNumber := ''B004'',
                   OutputFile := ''File created''\<rparr>]
          \<and> LateSubmission (last (submissions st')) = []
          \<and> bad_submissions st' = bad_submissions (initial_state course_disk)
          \<and> read_file (disk st') (plain_path course_cfg ''B004'') = Some ''M4''
          \<and> names (disk st') (learn_path course_cfg (ToLower course_lib ''S4444444'' @ ''.pdf'')) = None
          \<and> names (disk st') (late_path course_cfg ''B004'') = None))"
proof -
  have hA: "course_index ''S2222222'' = Some ''x_s2222222_attempt_1.txt''
      \<and> ParseLearnReceipt course_lib (disk (initial_state course_disk)) (learn_path course_cfg ''x_s2222222_attempt_1.txt'') = ((receipt_of ''s2222222'' ''2020-04-22-16-05-00''), None)
      \<and> NumberOfFiles (receipt_of ''s2222222'' ''2020-04-22-16-05-00'') = 1 \<and> FiletypeError (receipt_of ''s2222222'' ''2020-04-22-16-05-00'') = []
      \<and> names (disk (initial_state course_disk)) (learn_path course_cfg (Filename (receipt_of ''s2222222'' ''2020-04-22-16-05-00''))) \<noteq> None
      \<and> \<not> remove_fails calm (learn_path course_cfg (Filename (receipt_of ''s2222222'' ''2020-04-22-16-05-00'')))
      \<and> \<not> remove_fails calm (learn_path course_cfg ''x_s2222222_attempt_1.txt'')
      \<and> fst (CopyFile calm (disk (initial_state course_disk)) (learn_path course_cfg (Filename (receipt_of ''s2222222'' ''2020-04-22-16-05-00'')))
            (new_path course_cfg ''B002'' (mark_submission course_lib course_cfg ''B002'' (Atoi ''10'') (receipt_of ''s2222222'' ''2020-04-22-16-05-00'')))) = None
      \<and> (learn_path course_cfg (Filename (receipt_of ''s2222222'' ''2020-04-22-16-05-00''))) \<noteq> (new_path course_cfg ''B002'' (mark_submission course_lib course_cfg ''B002'' (Atoi ''10'') (receipt_of ''s2222222'' ''2020-04-22-16-05-00'')))
      \<and> (learn_path course_cfg ''x_s2222222_attempt_1.txt'') \<noteq> (learn_path course_cfg (Filename (receipt_of ''s2222222'' ''2020-04-22-16-05-00'')))
      \<and> (learn_path course_cfg ''x_s2222222_attempt_1.txt'') \<noteq> (new_path course_cfg ''B002'' (mark_submission course_lib course_cfg ''B002'' (Atoi ''10'') (receipt_of ''s2222222'' ''2020-04-22-16-05-00'')))
      \<and> (learn_path course_cfg (ToLower course_lib ''S2222222'' @ ''.pdf'')) \<noteq> (learn_path course_cfg (Filename (receipt_of ''s2222222'' ''2020-04-22-16-05-00'')))
      \<and> (learn_path course_cfg (ToLower course_lib ''S2222222'' @ ''.pdf'')) \<noteq> (learn_path course_cfg ''x_s2222222_attempt_1.txt'')
      \<and> (learn_path course_cfg (ToLower course_lib ''S2222222'' @ ''.pdf'')) \<noteq> (new_path course_cfg ''B002'' (mark_submission course_lib course_cfg ''B002'' (Atoi ''10'') (receipt_of ''s2222222'' ''2020-04-22-16-05-00'')))"
    by code_simp
  have eA: "\<not> target_newer (disk (initial_state course_disk)) (learn_path course_cfg (Filename (receipt_of ''s2222222'' ''2020-04-22-16-05-00''))) (new_path course_cfg ''B002'' (mark_submission course_lib course_cfg ''B002'' (Atoi ''10'') (receipt_of ''s2222222'' ''2020-04-22-16-05-00'')))
      \<and> names (disk (initial_state course_disk)) (new_path course_cfg ''B002'' (mark_submission course_lib course_cfg ''B002'' (Atoi ''10'') (receipt_of ''s2222222'' ''2020-04-22-16-05-00''))) = None
      \<and> read_file (disk (initial_state course_disk)) (learn_path course_cfg (Filename (receipt_of ''s2222222'' ''2020-04-22-16-05-00''))) = Some ''P2''
      \<and> names (disk (initial_state course_disk)) (learn_path course_cfg (ToLower course_lib ''S2222222'' @ ''.pdf'')) = Some 8"
    by code_simp
  have hB: "course_index ''S2222222'' = Some ''x_s2222222_attempt_1.txt''
      \<and> names (disk (initial_state course_disk)) (learn_path course_cfg (ToLower course_lib ''S2222222'' @ ''.pdf'')) = Some 8
      \<and> (learn_path course_cfg (ToLower course_lib ''S2222222'' @ ''.pdf'')) \<noteq> (learn_path course_cfg ''x_s2222222_attempt_1.txt'')
      \<and> (learn_path course_cfg (ToLower course_lib ''S2222222'' @ ''.pdf'')) \<noteq>
           learn_path course_cfg (Filename (fst (ParseLearnReceipt course_lib (disk (initial_state course_disk)) (learn_path course_cfg ''x_s2222222_attempt_1.txt''))))"
    by code_simp
  have hC: "course_index ''S5555555'' = None \<and> names (disk (initial_state course_disk)) (learn_path course_cfg (ToLower course_lib ''S5555555'' @ ''.pdf'')) = None"
    by code_simp
  have hD: "course_index ''S4444444'' = None
      \<and> names (disk (initial_state course_disk)) (learn_path course_cfg (ToLower course_lib ''S4444444'' @ ''.pdf'')) \<noteq> None
      \<and> \<not> remove_fails calm (learn_path course_cfg (ToLower course_lib ''S4444444'' @ ''.pdf''))
      \<and> fst (CopyFile calm (disk (initial_state course_disk)) (learn_path course_cfg (ToLower course_lib ''S4444444'' @ ''.pdf'')) (plain_path course_cfg ''B004'')) = None
      \<and> (learn_path course_cfg (ToLower course_lib ''S4444444'' @ ''.pdf'')) \<noteq> (plain_path course_cfg ''B004'')
      \<and> (learn_path course_cfg (ToLower course_lib ''S4444444'' @ ''.pdf'')) \<noteq> (late_path course_cfg ''B004'')"
    by code_simp
  have eD: "\<not> target_newer (disk (initial_state course_disk)) (learn_path course_cfg (ToLower course_lib ''S4444444'' @ ''.pdf'')) (plain_path course_cfg ''B004'')
      \<and> names (disk (initial_state course_disk)) (plain_path course_cfg ''B004'') = None
      \<and> read_file (disk (initial_state course_disk)) (learn_path course_cfg (ToLower course_lib ''S4444444'' @ ''.pdf'')) = Some ''M4''
      \<and> names (disk (initial_state course_disk)) (late_path course_cfg ''B004'') = None"
    by code_simp
  from C8_receipt_before_fallback [where learn_files = course_index and lib = course_lib
      and cfg = course_cfg and st = "initial_state course_disk"
      and env = calm and uun = "''S2222222''" and learn_file = "''x_s2222222_attempt_1.txt''"
      and parsed = "receipt_of ''s2222222'' ''2020-04-22-16-05-00''" and en = "''B002''" and et = "''10''"
      and given = "''Bob''" and family = "''Ray''" and rest = "[]"] hA
  have "(\<exists>st'. process_row calm course_lib course_cfg course_index (initial_state course_disk) [''S2222222'', ''B002'', ''Bob'', ''Ray'', ''10''] = Inr st'
          \<and> submissions st' = submissions (initial_state course_disk) @
               [(mark_submission course_lib course_cfg ''B002'' (Atoi ''10'') (receipt_of ''s2222222'' ''2020-04-22-16-05-00''))
                  \<lparr>OutputFile := if target_newer (disk (initial_state course_disk)) (learn_path course_cfg (Filename (receipt_of ''s2222222'' ''2020-04-22-16-05-00''))) (new_path course_cfg ''B002'' (mark_submission course_lib course_cfg ''B002'' (Atoi ''10'') (receipt_of ''s2222222'' ''2020-04-22-16-05-00'')))
                     then ''File already exists''
                     else if names (disk (initial_state course_disk)) (new_path course_cfg ''B002'' (mark_submission course_lib course_cfg ''B002'' (Atoi ''10'') (receipt_of ''s2222222'' ''2020-04-22-16-05-00''))) = None
                     then ''File created'' else ''File replaced''\<rparr>]
          \<and> bad_submissions st' = bad_submissions (initial_state course_disk)
          \<and> read_file (disk st') (new_path course_cfg ''B002'' (mark_submission course_lib course_cfg ''B002'' (Atoi ''10'') (receipt_of ''s2222222'' ''2020-04-22-16-05-00''))) = (if target_newer (disk (initial_state course_disk)) (learn_path course_cfg (Filename (receipt_of ''s2222222'' ''2020-04-22-16-05-00''))) (new_path course_cfg ''B002'' (mark_submission course_lib course_cfg ''B002'' (Atoi ''10'') (receipt_of ''s2222222'' ''2020-04-22-16-05-00'')))
                 then read_file (disk (initial_state course_disk)) (new_path course_cfg ''B002'' (mark_submission course_lib course_cfg ''B002'' (Atoi ''10'') (receipt_of ''s2222222'' ''2020-04-22-16-05-00'')))
                 else read_file (disk (initial_state course_disk)) (learn_path course_cfg (Filename (receipt_of ''s2222222'' ''2020-04-22-16-05-00''))))
          \<and> names (disk st') (learn_path course_cfg (Filename (receipt_of ''s2222222'' ''2020-04-22-16-05-00''))) = None
          \<and> names (disk st') (learn_path course_cfg ''x_s2222222_attempt_1.txt'') = None
          \<and> names (disk st') (learn_path course_cfg (ToLower course_lib ''S2222222'' @ ''.pdf'')) = names (disk (initial_state course_disk)) (learn_path course_cfg (ToLower course_lib ''S2222222'' @ ''.pdf'')))"
    by blast
  with eA have rA: "(\<exists>st'. process_row calm course_lib course_cfg course_index (initial_state course_disk) [''S2222222'', ''B002'', ''Bob'', ''Ray'', ''10''] = Inr st'
          \<and> submissions st' = submissions (initial_state course_disk) @
               [(mark_submission course_lib course_cfg ''B002'' (Atoi ''10'') (receipt_of ''s2222222'' ''2020-04-22-16-05-00''))
                  \<lparr>OutputFile := ''File created''\<rparr>]
          \<and> bad_submissions st' = bad_submissions (initial_state course_disk)
          \<and> read_file (disk st') (new_path course_cfg ''B002'' (mark_submission course_lib course_cfg ''B002'' (Atoi ''10'') (receipt_of ''s2222222'' ''2020-04-22-16-05-00''))) = Some ''P2''
          \<and> names (disk st') (learn_path course_cfg (Filename (receipt_of ''s2222222'' ''2020-04-22-16-05-00''))) = None
          \<and> names (disk st') (learn_path course_cfg ''x_s2222222_attempt_1.txt'') = None
          \<and> names (disk st') (learn_path course_cfg (ToLower course_lib ''S2222222'' @ ''.pdf'')) = Some 8)"
    by simp
  from C8_receipt_before_fallback [where learn_files = course_index and lib = course_lib
      and cfg = course_cfg and st = "initial_state course_disk"
      and env = no_write and uun = "''S2222222''" and learn_file = "''x_s2222222_attempt_1.txt''"
      and en = "''B002''" and et = "''10''" and i = 8
      and given = "''Bob''" and family = "''Ray''" and rest = "[]"] hB
  have rB: "(case process_row no_write course_lib course_cfg course_index (initial_state course_disk) [''S2222222'', ''B002'', ''Bob'', ''Ray'', ''10''] of
           Inl a \<Rightarrow> True
         | Inr st' \<Rightarrow> names (disk st') (learn_path course_cfg (ToLower course_lib ''S2222222'' @ ''.pdf'')) = Some 8)"
    by blast
  from C8_receipt_before_fallback [where learn_files = course_index and lib = course_lib
      and cfg = course_cfg and st = "initial_state course_disk"
      and env = calm and uun = "''S5555555''" and en = "''B005''" and et = "[]"
      and given = "''Eve''" and family = "''Orr''" and rest = "[]"] hC
  have rC: "process_row calm course_lib course_cfg course_index (initial_state course_disk) [''S5555555'', ''B005'', ''Eve'', ''Orr'', []]
          = Inr ((initial_state course_disk)\<lparr>examno := (examno (initial_state course_disk))(''S5555555'' \<mapsto> ''B005'')\<rparr>)"
    by blast
  from C8_receipt_before_fallback [where learn_files = course_index and lib = course_lib
      and cfg = course_cfg and st = "initial_state course_disk"
      and env = calm and uun = "''S4444444''" and en = "''B004''" and et = "''5''"
      and given = "''Dee''" and family = "''Kay''" and rest = "[]"] hD
  have "(\<exists>st'. process_row calm course_lib course_cfg course_index (initial_state course_disk) [''S4444444'', ''B004'', ''Dee'', ''Kay'', ''5''] = Inr st'
          \<and> submissions st' = submissions (initial_state course_disk) @
               [zero_submission
                  \<lparr>UUN := ''S4444444'', ExamNumber := ''B004'',
                   OutputFile := if target_newer (disk (initial_state course_disk)) (learn_path course_cfg (ToLower course_lib ''S4444444'' @ ''.pdf'')) (plain_path course_cfg ''B004'')
                     then ''File already exists''
                     else if names (disk (initial_state course_disk)) (plain_path course_cfg ''B004'') = None
                     then ''File created'' else ''File replaced''\<rparr>]
          \<and> LateSubmission (last (submissions st')) = []
          \<and> bad_submissions st' = bad_submissions (initial_state course_disk)
          \<and> read_file (disk st') (plain_path course_cfg ''B004'') = (if target_newer (disk (initial_state course_disk)) (learn_path course_cfg (ToLower course_lib ''S4444444'' @ ''.pdf'')) (plain_path course_cfg ''B004'')
                 then read_file (disk (initial_state course_disk)) (plain_path course_cfg ''B004'')
                 else read_file (disk (initial_state course_disk)) (learn_path course_cfg (ToLower course_lib ''S4444444'' @ ''.pdf'')))
          \<and> names (disk st') (learn_path course_cfg (ToLower course_lib ''S4444444'' @ ''.pdf'')) = None
          \<and> names (disk st') (late_path course_cfg ''B004'') = names (disk (initial_state course_disk)) (late_path course_cfg ''B004''))"
    by blast
  with eD have rD: "(\<exists>st'. process_row calm course_lib course_cfg course_index (initial_state course_disk) [''S4444444'', ''B004'', ''Dee'', ''Kay'', ''5''] = Inr st'
          \<and> submissions st' = submissions (initial_state course_disk) @
               [zero_submission
                  \<lparr>UUN := ''S4444444'', ExamNumber := ''B004'',
                   OutputFile := ''File created''\<rparr>]
          \<and> LateSubmission (last (submissions st')) = []
          \<and> bad_submissions st' = bad_submissions (initial_state course_disk)
          \<and> read_file (disk st') (plain_path course_cfg ''B004'') = Some ''M4''
          \<and> names (disk st') (learn_path course_cfg (ToLower course_lib ''S4444444'' @ ''.pdf'')) = None
          \<and> names (disk st') (late_path course_cfg ''B004'') = None)"
    by simp
  have pD: "(plain_path course_cfg ''B004'') = ''O/B004.pdf''" by code_simp
  from hA hB hC hD rA rB rC rD pD show ?thesis by blast
qed

end
